theory Spec2Isabelle
  imports Complex_Main
begin

section \<open>Composite phase-space positions\<close>

text \<open>
  \<^verbatim>\<open>galax/coordinates/_psp/base_composite.py\<close>.
  An \<^verbatim>\<open>AbstractCompositePhaseSpacePosition\<close> is an \<^verbatim>\<open>ImmutableDict\<close> from
  component names to phase-space positions. A Python dict keeps insertion order, so it
  is an association list here. The components' own \<^verbatim>\<open>__len__\<close> lives in
  \<^verbatim>\<open>base.py\<close>, which is not part of the sources at hand: it is the parameter
  \<open>len_w\<close> (Python's \<^verbatim>\<open>len\<close> never returns a negative number, hence \<open>nat\<close>).
\<close>

type_synonym 'w ImmutableDict = "(string \<times> 'w) list"

definition values_of :: "'w ImmutableDict \<Rightarrow> 'w list" where
  "values_of self = map snd self"

text \<open>Python's \<^verbatim>\<open>a or b\<close> on integers: \<open>a\<close> when it is truthy (non-zero), else \<open>b\<close>.\<close>

definition py_or :: "nat \<Rightarrow> nat \<Rightarrow> nat" where
  "py_or a b = (if a = 0 then b else a)"

text \<open>Python's builtin \<^verbatim>\<open>sum\<close>: a left fold of \<open>+\<close> starting at 0.\<close>

definition py_sum :: "nat list \<Rightarrow> nat" where
  "py_sum xs = foldl (+) 0 xs"

text \<open>\<^verbatim>\<open>return sum([len(w) or 1 for w in self.values()])\<close>\<close>

definition composite_len :: "('w \<Rightarrow> nat) \<Rightarrow> 'w ImmutableDict \<Rightarrow> nat" where
  "composite_len len_w self = py_sum (map (\<lambda>w. py_or (len_w w) 1) (values_of self))"


section \<open>Parameters, coefficient arrays and errors\<close>

text \<open>
  All quantities are numbers in the potential's unit system (the \<^verbatim>\<open>ustrip\<close> calls
  of the source), and arithmetic is over the reals: rounding, overflow and the
  non-finite values of floating point are not represented.
\<close>

text \<open>
  Modelled from the spec: \<^verbatim>\<open>AbstractParameter\<close> and \<^verbatim>\<open>ParameterField\<close>
  (\<^verbatim>\<open>galax/potential/_src/params\<close>) are not among the sources at hand. The spec
  says that a parameter is either a constant or a callable of time; calling the
  parameter at a time gives its value then.
\<close>

datatype 'a parameter = ConstantParameter 'a | UserParameter "real \<Rightarrow> 'a"

fun call_param :: "'a parameter \<Rightarrow> real \<Rightarrow> 'a" where
  "call_param (ConstantParameter v) t = v"
| "call_param (UserParameter f) t = f t"

text \<open>
  A coefficient array: its \<^verbatim>\<open>.shape\<close> (a tuple of dimensions) and the element
  read \<^verbatim>\<open>a[l, m]\<close>. What a read outside the shape gives is the array library's
  business and stays inside \<open>item\<close>.
\<close>

record ndarray =
  shape :: "nat list"
  item :: "nat \<Rightarrow> nat \<Rightarrow> real"

datatype error = ValueError string | KeyError string

text \<open>Python's \<^verbatim>\<open>str\<close> of a non-negative integer and of a tuple of them.\<close>

fun str_nat :: "nat \<Rightarrow> string" where
  "str_nat n =
     (if n < 10 then [''0123456789'' ! n]
      else str_nat (n div 10) @ [''0123456789'' ! (n mod 10)])"

declare str_nat.simps [simp del]

fun str_items :: "nat list \<Rightarrow> string" where
  "str_items [] = []"
| "str_items [a] = str_nat a"
| "str_items (a # b # bs) = str_nat a @ '', '' @ str_items (b # bs)"

fun str_tuple :: "nat list \<Rightarrow> string" where
  "str_tuple [] = ''()''"
| "str_tuple [a] = ''('' @ str_nat a @ '',)''"
| "str_tuple (a # b # bs) = ''('' @ str_items (a # b # bs) @ '')''"


section \<open>Multipole potentials: fields and construction\<close>

text \<open>
  \<^verbatim>\<open>galax/potential/_src/builtin/multipole.py\<close>. The field \<open>constants_G\<close> is
  \<^verbatim>\<open>self.constants["G"].value\<close>. \<^verbatim>\<open>MultipoleInnerPotential\<close> and
  \<^verbatim>\<open>MultipoleOuterPotential\<close> declare the same fields, so they share the record
  \<open>SlmTlm\<close>; the degree \<open>l_max\<close> is a natural number.
\<close>

record AbstractMultipolePotential =
  m_tot :: "real parameter"
  r_s :: "real parameter"
  l_max :: nat
  constants_G :: real

record SlmTlm = AbstractMultipolePotential +
  Slm :: "ndarray parameter"
  Tlm :: "ndarray parameter"

record MultipolePotential = AbstractMultipolePotential +
  ISlm :: "ndarray parameter"
  ITlm :: "ndarray parameter"
  OSlm :: "ndarray parameter"
  OTlm :: "ndarray parameter"

definition MultipoleInnerPotential_check_init :: "SlmTlm \<Rightarrow> error + unit" where
  "MultipoleInnerPotential_check_init self =
     (let shp = [l_max self + 1, l_max self + 1];
          t = 0;
          s_shape = shape (call_param (Slm self) t);
          t_shape = shape (call_param (Tlm self) t)
      in if s_shape \<noteq> shp \<or> t_shape \<noteq> shp
         then Inl (ValueError
                (''Slm and Tlm must have the shape (l_max + 1, l_max + 1).''
                 @ ''Slm shape: '' @ str_tuple s_shape
                 @ '', Tlm shape: '' @ str_tuple t_shape))
         else Inr ())"

definition MultipoleOuterPotential_check_init :: "SlmTlm \<Rightarrow> error + unit" where
  "MultipoleOuterPotential_check_init self =
     (let shp = [l_max self + 1, l_max self + 1];
          t = 0;
          s_shape = shape (call_param (Slm self) t);
          t_shape = shape (call_param (Tlm self) t)
      in if s_shape \<noteq> shp \<or> t_shape \<noteq> shp
         then Inl (ValueError
                (''Slm and Tlm must have the shape (l_max + 1, l_max + 1).''
                 @ ''Slm shape: '' @ str_tuple s_shape
                 @ '', Tlm shape: '' @ str_tuple t_shape))
         else Inr ())"

definition MultipolePotential_check_init :: "MultipolePotential \<Rightarrow> error + unit" where
  "MultipolePotential_check_init self =
     (let shp = [l_max self + 1, l_max self + 1];
          t = 0;
          is_shape = shape (call_param (ISlm self) t);
          it_shape = shape (call_param (ITlm self) t);
          os_shape = shape (call_param (OSlm self) t);
          ot_shape = shape (call_param (OTlm self) t)
      in if is_shape \<noteq> shp \<or> it_shape \<noteq> shp \<or> os_shape \<noteq> shp \<or> ot_shape \<noteq> shp
         then Inl (ValueError
                ''I/OSlm and I/OTlm must have the shape (l_max + 1, l_max + 1).'')
         else Inr ())"

text \<open>
  Construction: the dataclass-generated \<^verbatim>\<open>__init__\<close> stores the fields and then
  runs \<^verbatim>\<open>__check_init__\<close>; an exception raised there aborts the construction.
\<close>

definition MultipoleInnerPotential_init ::
  "real parameter \<Rightarrow> real parameter \<Rightarrow> nat \<Rightarrow> real \<Rightarrow> ndarray parameter \<Rightarrow> ndarray parameter
     \<Rightarrow> error + SlmTlm" where
  "MultipoleInnerPotential_init m r l g S T =
     (let self = \<lparr>m_tot = m, r_s = r, l_max = l, constants_G = g, Slm = S, Tlm = T\<rparr>
      in case MultipoleInnerPotential_check_init self of
           Inl e \<Rightarrow> Inl e
         | Inr _ \<Rightarrow> Inr self)"

definition MultipoleOuterPotential_init ::
  "real parameter \<Rightarrow> real parameter \<Rightarrow> nat \<Rightarrow> real \<Rightarrow> ndarray parameter \<Rightarrow> ndarray parameter
     \<Rightarrow> error + SlmTlm" where
  "MultipoleOuterPotential_init m r l g S T =
     (let self = \<lparr>m_tot = m, r_s = r, l_max = l, constants_G = g, Slm = S, Tlm = T\<rparr>
      in case MultipoleOuterPotential_check_init self of
           Inl e \<Rightarrow> Inl e
         | Inr _ \<Rightarrow> Inr self)"

definition MultipolePotential_init ::
  "real parameter \<Rightarrow> real parameter \<Rightarrow> nat \<Rightarrow> real \<Rightarrow> ndarray parameter \<Rightarrow> ndarray parameter
     \<Rightarrow> ndarray parameter \<Rightarrow> ndarray parameter \<Rightarrow> error + MultipolePotential" where
  "MultipolePotential_init m r l g IS IT OS OT =
     (let self = \<lparr>m_tot = m, r_s = r, l_max = l, constants_G = g,
                  ISlm = IS, ITlm = IT, OSlm = OS, OTlm = OT\<rparr>
      in case MultipolePotential_check_init self of
           Inl e \<Rightarrow> Inl e
         | Inr _ \<Rightarrow> Inr self)"


section \<open>Multipole potentials: evaluation\<close>

text \<open>
  A position is one Cartesian 3-vector (\<^verbatim>\<open>xyz.ndim == 1\<close>) or a batch of them;
  the potential value is a scalar or a batch of scalars accordingly.
\<close>

type_synonym vec3 = "real \<times> real \<times> real"

datatype xyz_array = Sz3 vec3 | BtSz3 "vec3 list"

datatype potential_value = Sz0 real | BtSz0 "real list"

fun ndim :: "xyz_array \<Rightarrow> nat" where
  "ndim (Sz3 q) = 1"
| "ndim (BtSz3 qs) = 2"

fun atleast_2d :: "xyz_array \<Rightarrow> vec3 list" where
  "atleast_2d (Sz3 q) = [q]"
| "atleast_2d (BtSz3 qs) = qs"

fun vector_norm :: "vec3 \<Rightarrow> real" where
  "vector_norm (x, y, z) = sqrt (x\<^sup>2 + y\<^sup>2 + z\<^sup>2)"

text \<open>The two-argument arctangent \<^verbatim>\<open>jnp.atan2(y, x)\<close>, the angle of the point \<open>(x, y)\<close>.\<close>

definition atan2 :: "real \<Rightarrow> real \<Rightarrow> real" where
  "atan2 y x =
     (if 0 < x then arctan (y / x)
      else if x < 0 then (if 0 \<le> y then arctan (y / x) + pi else arctan (y / x) - pi)
      else if 0 < y then pi / 2
      else if y < 0 then - (pi / 2)
      else 0)"

text \<open>
  \<^verbatim>\<open>cartesian_to_normalized_spherical(q, r_s)\<close>, on a batch \<open>q\<close>:
  \<^verbatim>\<open>q[..., 0]\<close>, \<^verbatim>\<open>q[..., 1]\<close>, \<^verbatim>\<open>q[..., 2]\<close> are the components.
\<close>

definition cartesian_to_normalized_spherical ::
  "vec3 list \<Rightarrow> real \<Rightarrow> real list \<times> real list \<times> real list" where
  "cartesian_to_normalized_spherical q rs =
     (let r = map vector_norm q;
          s = map (\<lambda>ri. ri / rs) r;
          theta = map2 (\<lambda>qi ri. arccos (snd (snd qi) / ri)) q r;
          phi = map (\<lambda>qi. atan2 (fst (snd qi)) (fst qi)) q
      in (s, theta, phi))"

text \<open>
  \<^verbatim>\<open>jax.scipy.special.sph_harm(m, n, theta, phi, n_max)\<close> belongs to an external
  library. The harmonic it computes for one point is a parameter \<open>Y\<close> of every
  evaluation function, with arguments in that order (order \<open>m\<close>, degree \<open>n\<close>,
  azimuth, polar angle, \<open>n_max\<close>).
\<close>

type_synonym sph_harm_fn = "nat \<Rightarrow> nat \<Rightarrow> real \<Rightarrow> real \<Rightarrow> nat \<Rightarrow> complex"

text \<open>
  The call of \<^verbatim>\<open>compute_Ylm\<close>,
  \<^verbatim>\<open>sph_harm(jnp.atleast_1d(m), jnp.atleast_1d(l), phi, theta, n_max=l_max)\<close>,
  passes an order and a degree of length 1 with the angles of the whole batch. For
  arguments of these lengths the library reads the Legendre (polar) factor at the
  indices \<^verbatim>\<open>arange(len(n))\<close>, that is at the polar angle of the first position of the
  batch only, and multiplies it with \<open>exp (i m az)\<close> for the azimuth \<open>az\<close> of every
  position: entry \<open>k\<close> of the result is the harmonic at the azimuth of position \<open>k\<close> and
  the polar angle of position 0. The first list below holds the azimuths, the second the
  polar angles. On a batch of no positions the library call fails; that failure is not
  part of this model, which has the empty array there.
\<close>

fun sph_harm :: "sph_harm_fn \<Rightarrow> nat \<Rightarrow> nat \<Rightarrow> real list \<Rightarrow> real list \<Rightarrow> nat \<Rightarrow> complex list" where
  "sph_harm Y m n theta [] n_max = []"
| "sph_harm Y m n theta (phi0 # phis) n_max = map (\<lambda>az. Y m n az phi0 n_max) theta"

definition compute_Ylm ::
  "sph_harm_fn \<Rightarrow> nat \<Rightarrow> nat \<Rightarrow> real list \<Rightarrow> real list \<Rightarrow> nat \<Rightarrow> real list \<times> real list" where
  "compute_Ylm Y l m theta phi lmax =
     (let Ylm = sph_harm Y m l phi theta lmax
      in (map Re Ylm, map Im Ylm))"

text \<open>
  \<^verbatim>\<open>jnp.tril_indices(n)\<close>: the row and the column indices of the lower triangle of
  an \<open>n \<times> n\<close> matrix, row by row.
\<close>

definition tril_indices :: "nat \<Rightarrow> nat list \<times> nat list" where
  "tril_indices n =
     (concat (map (\<lambda>l. replicate (l + 1) l) [0..<n]),
      concat (map (\<lambda>l. [0..<l + 1]) [0..<n]))"

text \<open>
  \<^verbatim>\<open>jnp.sum(rows, axis=0)\<close> for rows of length \<open>n\<close>: the rows are added up
  element by element.
\<close>

definition sum_axis0 :: "nat \<Rightarrow> real list list \<Rightarrow> real list" where
  "sum_axis0 n rows = foldl (map2 (+)) (replicate n 0) rows"

text \<open>
  The three \<^verbatim>\<open>summand(l, m)\<close> closures, with the variables they capture as
  arguments. \<^verbatim>\<open>jnp.pow(s, l)\<close> is \<open>s ^ l\<close>; with the negative integer exponent
  \<^verbatim>\<open>-(l + 1)\<close> it is \<open>s powi - (l + 1)\<close>.
\<close>

definition inner_summand ::
  "sph_harm_fn \<Rightarrow> nat \<Rightarrow> ndarray \<Rightarrow> ndarray \<Rightarrow> real list \<Rightarrow> real list \<Rightarrow> real list
     \<Rightarrow> nat \<Rightarrow> nat \<Rightarrow> real list" where
  "inner_summand Y lmax S T s theta phi l m =
     (let (cPlm, sPlm) = compute_Ylm Y l m theta phi lmax
      in map2 (*) (map (\<lambda>si. si ^ l) s)
           (map2 (+) (map (\<lambda>c. item S l m * c) cPlm) (map (\<lambda>c. item T l m * c) sPlm)))"

definition outer_summand ::
  "sph_harm_fn \<Rightarrow> nat \<Rightarrow> ndarray \<Rightarrow> ndarray \<Rightarrow> real list \<Rightarrow> real list \<Rightarrow> real list
     \<Rightarrow> nat \<Rightarrow> nat \<Rightarrow> real list" where
  "outer_summand Y lmax S T s theta phi l m =
     (let (cPlm, sPlm) = compute_Ylm Y l m theta phi lmax
      in map2 (*) (map (\<lambda>si. si powi (- (int l + 1))) s)
           (map2 (+) (map (\<lambda>c. item S l m * c) cPlm) (map (\<lambda>c. item T l m * c) sPlm)))"

definition both_summand ::
  "sph_harm_fn \<Rightarrow> nat \<Rightarrow> ndarray \<Rightarrow> ndarray \<Rightarrow> ndarray \<Rightarrow> ndarray
     \<Rightarrow> real list \<Rightarrow> real list \<Rightarrow> real list \<Rightarrow> nat \<Rightarrow> nat \<Rightarrow> real list" where
  "both_summand Y lmax IS IT OS OT s theta phi l m =
     (let (cPlm, sPlm) = compute_Ylm Y l m theta phi lmax;
          inner = map2 (*) (map (\<lambda>si. si ^ l) s)
            (map2 (+) (map (\<lambda>c. item IS l m * c) cPlm) (map (\<lambda>c. item IT l m * c) sPlm));
          outer = map2 (*) (map (\<lambda>si. si powi (- int l - 1)) s)
            (map2 (+) (map (\<lambda>c. item OS l m * c) cPlm) (map (\<lambda>c. item OT l m * c) sPlm))
      in map2 (+) inner outer)"

text \<open>
  The end of every \<^verbatim>\<open>_potential\<close>: \<^verbatim>\<open>summation[0]\<close> for a scalar input,
  then the product with the scalar \<^verbatim>\<open>G * m_tot / r_s\<close>. For a scalar input the
  summation has exactly one element, so the read at index 0 is in range.
\<close>

definition scale_summation :: "bool \<Rightarrow> real \<Rightarrow> real list \<Rightarrow> potential_value" where
  "scale_summation is_scalar c summation =
     (if is_scalar then Sz0 (c * (summation ! 0))
      else BtSz0 (map (\<lambda>v. c * v) summation))"

definition MultipoleInnerPotential_potential ::
  "sph_harm_fn \<Rightarrow> SlmTlm \<Rightarrow> xyz_array \<Rightarrow> real \<Rightarrow> potential_value" where
  "MultipoleInnerPotential_potential Y self xyz t =
     (let mtot = call_param (m_tot self) t;
          rs = call_param (r_s self) t;
          S = call_param (Slm self) t;
          T = call_param (Tlm self) t;
          is_scalar = (ndim xyz = 1);
          (s, theta, phi) = cartesian_to_normalized_spherical (atleast_2d xyz) rs;
          lmax = l_max self;
          (ls, ms) = tril_indices (lmax + 1);
          summation = sum_axis0 (length s)
            (map2 (inner_summand Y lmax S T s theta phi) ls ms)
      in scale_summation is_scalar (constants_G self * mtot / rs) summation)"

definition MultipoleOuterPotential_potential ::
  "sph_harm_fn \<Rightarrow> SlmTlm \<Rightarrow> xyz_array \<Rightarrow> real \<Rightarrow> potential_value" where
  "MultipoleOuterPotential_potential Y self xyz t =
     (let mtot = call_param (m_tot self) t;
          rs = call_param (r_s self) t;
          S = call_param (Slm self) t;
          T = call_param (Tlm self) t;
          is_scalar = (ndim xyz = 1);
          (s, theta, phi) = cartesian_to_normalized_spherical (atleast_2d xyz) rs;
          lmax = l_max self;
          (ls, ms) = tril_indices (lmax + 1);
          summation = sum_axis0 (length s)
            (map2 (outer_summand Y lmax S T s theta phi) ls ms)
      in scale_summation is_scalar (constants_G self * mtot / rs) summation)"

definition MultipolePotential_potential ::
  "sph_harm_fn \<Rightarrow> MultipolePotential \<Rightarrow> xyz_array \<Rightarrow> real \<Rightarrow> potential_value" where
  "MultipolePotential_potential Y self xyz t =
     (let mtot = call_param (m_tot self) t;
          rs = call_param (r_s self) t;
          IS = call_param (ISlm self) t;
          IT = call_param (ITlm self) t;
          OS = call_param (OSlm self) t;
          OT = call_param (OTlm self) t;
          is_scalar = (ndim xyz = 1);
          (s, theta, phi) = cartesian_to_normalized_spherical (atleast_2d xyz) rs;
          lmax = l_max self;
          (ls, ms) = tril_indices (lmax + 1);
          summation = sum_axis0 (length s)
            (map2 (both_summand Y lmax IS IT OS OT s theta phi) ls ms)
      in scale_summation is_scalar (constants_G self * mtot / rs) summation)"


section \<open>The multipole series of the specification\<close>

text \<open>
  The closed forms the evaluation functions are compared with. The normalized
  spherical coordinates of one position are \<open>s = r / r_s\<close>, \<open>\<theta> = acos (z / r)\<close> and
  \<open>\<phi> = atan2 y x\<close>.
\<close>

definition normalized_spherical :: "vec3 \<Rightarrow> real \<Rightarrow> real \<times> real \<times> real" where
  "normalized_spherical q rs =
     (vector_norm q / rs, arccos (snd (snd q) / vector_norm q), atan2 (fst (snd q)) (fst q))"

text \<open>The sum over all \<open>(l, m)\<close> with \<open>0 \<le> m \<le> l \<le> l_max\<close>.\<close>

definition multipole_sum :: "nat \<Rightarrow> (nat \<Rightarrow> nat \<Rightarrow> real) \<Rightarrow> real" where
  "multipole_sum lmax f = (\<Sum>l\<le>lmax. \<Sum>m\<le>l. f l m)"

text \<open>
  \<open>G m_tot / r_s\<close> times the sum of the terms
  \<open>radial s l * (Slm[l, m] * cP l m \<theta> \<phi> + Tlm[l, m] * sP l m \<theta> \<phi>)\<close>, where
  \<open>radial\<close> is the power of \<open>s\<close> and \<open>cP\<close>, \<open>sP\<close> are the two angular factors.
\<close>

definition multipole_series ::
  "(real \<Rightarrow> nat \<Rightarrow> real) \<Rightarrow> (nat \<Rightarrow> nat \<Rightarrow> real \<Rightarrow> real \<Rightarrow> real) \<Rightarrow> (nat \<Rightarrow> nat \<Rightarrow> real \<Rightarrow> real \<Rightarrow> real)
     \<Rightarrow> SlmTlm \<Rightarrow> real \<Rightarrow> vec3 \<Rightarrow> real" where
  "multipole_series radial cP sP self t q =
     (let mtot = call_param (m_tot self) t;
          rs = call_param (r_s self) t;
          S = call_param (Slm self) t;
          T = call_param (Tlm self) t;
          (s, theta, phi) = normalized_spherical q rs
      in constants_G self * mtot / rs *
         multipole_sum (l_max self)
           (\<lambda>l m. radial s l * (item S l m * cP l m theta phi + item T l m * sP l m theta phi)))"


section \<open>Lagrange points of a cluster\<close>

text \<open>
  \<^verbatim>\<open>galax/dynamics/_src/cluster/register_funcs.py\<close>. Positions and velocities are
  Cartesian 3-vectors in one unit system, so \<^verbatim>\<open>convert(x, u.Quantity)\<close> leaves
  them as they are. The arithmetic of the source on such vectors:
\<close>

fun vadd :: "vec3 \<Rightarrow> vec3 \<Rightarrow> vec3" where
  "vadd (a, b, c) (x, y, z) = (a + x, b + y, c + z)"

fun vsub :: "vec3 \<Rightarrow> vec3 \<Rightarrow> vec3" where
  "vsub (a, b, c) (x, y, z) = (a - x, b - y, c - z)"

fun vscale :: "vec3 \<Rightarrow> real \<Rightarrow> vec3" where
  "vscale (a, b, c) k = (a * k, b * k, c * k)"

fun vdiv :: "vec3 \<Rightarrow> real \<Rightarrow> vec3" where
  "vdiv (a, b, c) k = (a / k, b / k, c / k)"

text \<open>\<^verbatim>\<open>cx.vecs.normalize_vector\<close> (external library): the vector over its norm.\<close>

definition normalize_vector :: "vec3 \<Rightarrow> vec3" where
  "normalize_vector x = vdiv x (vector_norm x)"

text \<open>
  Modelled from the spec: \<^verbatim>\<open>L1L2LagrangePoints\<close> (\<^verbatim>\<open>api.py\<close>) is not among the
  sources at hand; the spec describes it as the pair \<open>(l1, l2)\<close> of 3-vectors.
\<close>

record L1L2LagrangePoints =
  l1 :: vec3
  l2 :: vec3

text \<open>
  The vector form of \<^verbatim>\<open>lagrange_points\<close>. The function
  \<^verbatim>\<open>tidal_radius_king1962\<close> it calls lives in \<^verbatim>\<open>radius.py\<close>, which is not
  among the sources at hand: it is the parameter \<open>tidal_radius\<close>, and the host
  potential is whatever that function accepts.
\<close>

definition lagrange_points ::
  "('pot \<Rightarrow> vec3 \<Rightarrow> vec3 \<Rightarrow> real \<Rightarrow> real \<Rightarrow> real) \<Rightarrow> 'pot \<Rightarrow> vec3 \<Rightarrow> vec3 \<Rightarrow> real \<Rightarrow> real
     \<Rightarrow> L1L2LagrangePoints" where
  "lagrange_points tidal_radius potential x v mass t =
     (let r_t = tidal_radius potential x v mass t;
          r_hat = normalize_vector x;
          l1 = vsub x (vscale r_hat r_t);
          l2 = vadd x (vscale r_hat r_t)
      in \<lparr>l1 = l1, l2 = l2\<rparr>)"

text \<open>
  Modelled from the spec: \<^verbatim>\<open>tidal_radius_king1962\<close>, missing from the sources at
  hand. The spec gives the King (1962) relation \<open>r_t = (G m / (\<Omega>\<^sup>2 - d\<^sup>2\<Phi>/dr\<^sup>2))^(1/3)\<close>,
  with \<open>\<Omega>\<close> the orbital angular velocity of the progenitor, \<open>|x \<times> v| / |x|\<^sup>2\<close>, and
  \<open>d\<^sup>2\<Phi>/dr\<^sup>2\<close> the second radial derivative of the host potential at the progenitor.
  A host potential is represented by what the relation needs of it: its constant \<open>G\<close>
  and that second derivative as a function of position and time.
\<close>

record host_potential =
  host_G :: real
  d2potential_dr2 :: "vec3 \<Rightarrow> real \<Rightarrow> real"

fun cross :: "vec3 \<Rightarrow> vec3 \<Rightarrow> vec3" where
  "cross (a, b, c) (x, y, z) = (b * z - c * y, c * x - a * z, a * y - b * x)"

definition orbital_angular_velocity :: "vec3 \<Rightarrow> vec3 \<Rightarrow> real" where
  "orbital_angular_velocity x v = vector_norm (cross x v) / (vector_norm x)\<^sup>2"

definition tidal_radius_king1962 ::
  "host_potential \<Rightarrow> vec3 \<Rightarrow> vec3 \<Rightarrow> real \<Rightarrow> real \<Rightarrow> real" where
  "tidal_radius_king1962 pot x v mass t =
     root 3 (host_G pot * mass
             / ((orbital_angular_velocity x v)\<^sup>2 - d2potential_dr2 pot x t))"

text \<open>
  The inputs of the other overloads. A \<^verbatim>\<open>coordinax.Space\<close> maps dimension names to
  vectors, and \<^verbatim>\<open>space["length"]\<close> raises \<^verbatim>\<open>KeyError\<close> for a name it does not
  hold; a \<^verbatim>\<open>Coordinate\<close> holds a space as \<^verbatim>\<open>.data\<close> and a frame; a phase-space
  position has the fields \<^verbatim>\<open>q\<close> and \<^verbatim>\<open>p\<close>, a phase-space coordinate also a
  time \<^verbatim>\<open>t\<close> of shape \<open>()\<close> or \<open>(1,)\<close>, which \<^verbatim>\<open>.squeeze()\<close> turns into
  a scalar.
\<close>

type_synonym Space = "string \<rightharpoonup> vec3"

record 'f Coordinate =
  data :: Space
  frame :: 'f

datatype time_quantity = TimeSz0 real | TimeSz1 real

fun squeeze :: "time_quantity \<Rightarrow> real" where
  "squeeze (TimeSz0 a) = a"
| "squeeze (TimeSz1 a) = a"

record PhaseSpacePosition =
  w_q :: vec3
  w_p :: vec3

record PhaseSpaceCoordinate = PhaseSpacePosition +
  w_t :: time_quantity

definition getitem :: "Space \<Rightarrow> string \<Rightarrow> error + vec3" where
  "getitem space k = (case space k of None \<Rightarrow> Inl (KeyError k) | Some u \<Rightarrow> Inr u)"

text \<open>
  \<^verbatim>\<open>lagrange_points(pot, space["length"], space["speed"], mass=mass, t=t)\<close>:
  the arguments are evaluated from left to right.
\<close>

definition lagrange_points_Space ::
  "('pot \<Rightarrow> vec3 \<Rightarrow> vec3 \<Rightarrow> real \<Rightarrow> real \<Rightarrow> real) \<Rightarrow> 'pot \<Rightarrow> Space \<Rightarrow> real \<Rightarrow> real
     \<Rightarrow> error + L1L2LagrangePoints" where
  "lagrange_points_Space tidal_radius pot space mass t =
     (case getitem space ''length'' of
        Inl e \<Rightarrow> Inl e
      | Inr x \<Rightarrow>
          (case getitem space ''speed'' of
             Inl e \<Rightarrow> Inl e
           | Inr v \<Rightarrow> Inr (lagrange_points tidal_radius pot x v mass t)))"

text \<open>\<^verbatim>\<open>lagrange_points(pot, coord.data, mass=mass, t=t)\<close>\<close>

definition lagrange_points_Coordinate ::
  "('pot \<Rightarrow> vec3 \<Rightarrow> vec3 \<Rightarrow> real \<Rightarrow> real \<Rightarrow> real) \<Rightarrow> 'pot \<Rightarrow> 'f Coordinate \<Rightarrow> real \<Rightarrow> real
     \<Rightarrow> error + L1L2LagrangePoints" where
  "lagrange_points_Coordinate tidal_radius pot coord mass t =
     lagrange_points_Space tidal_radius pot (data coord) mass t"

text \<open>\<^verbatim>\<open>lagrange_points(pot, w.q, w.p, mass=mass, t=w.t.squeeze())\<close>\<close>

definition lagrange_points_PhaseSpaceCoordinate ::
  "('pot \<Rightarrow> vec3 \<Rightarrow> vec3 \<Rightarrow> real \<Rightarrow> real \<Rightarrow> real) \<Rightarrow> 'pot \<Rightarrow> PhaseSpaceCoordinate \<Rightarrow> real
     \<Rightarrow> L1L2LagrangePoints" where
  "lagrange_points_PhaseSpaceCoordinate tidal_radius pot w mass =
     lagrange_points tidal_radius pot (w_q w) (w_p w) mass (squeeze (w_t w))"

text \<open>\<^verbatim>\<open>lagrange_points(pot, w.q, w.p, mass=mass, t=time)\<close>\<close>

definition lagrange_points_PhaseSpacePosition ::
  "('pot \<Rightarrow> vec3 \<Rightarrow> vec3 \<Rightarrow> real \<Rightarrow> real \<Rightarrow> real) \<Rightarrow> 'pot \<Rightarrow> PhaseSpacePosition \<Rightarrow> real \<Rightarrow> real
     \<Rightarrow> L1L2LagrangePoints" where
  "lagrange_points_PhaseSpacePosition tidal_radius pot w mass time =
     lagrange_points tidal_radius pot (w_q w) (w_p w) mass time"


section \<open>Lagrange points with non-finite values\<close>

text \<open>
  The numbers of the source are floating-point values, which besides the finite ones
  comprise the two infinities and NaN. To follow a non-finite input through
  \<^verbatim>\<open>lagrange_points\<close>, the same lines of the source are embedded a second time over
  such values. A finite value is a real number here (rounding, overflow and the sign of
  zero are left out, a zero divisor counting as positive), and the operations follow the
  IEEE 754 rules wherever an operand or the result is not finite.
\<close>

datatype fl = Fin real | PInf | NInf | NaN

text \<open>\<^verbatim>\<open>jnp.isfinite\<close>\<close>

fun isfinite :: "fl \<Rightarrow> bool" where
  "isfinite (Fin a) = True"
| "isfinite PInf = False"
| "isfinite NInf = False"
| "isfinite NaN = False"

fun fl_neg :: "fl \<Rightarrow> fl" where
  "fl_neg (Fin a) = Fin (- a)"
| "fl_neg PInf = NInf"
| "fl_neg NInf = PInf"
| "fl_neg NaN = NaN"

fun fl_add :: "fl \<Rightarrow> fl \<Rightarrow> fl" where
  "fl_add (Fin a) (Fin b) = Fin (a + b)"
| "fl_add (Fin a) PInf = PInf"
| "fl_add (Fin a) NInf = NInf"
| "fl_add PInf (Fin b) = PInf"
| "fl_add PInf PInf = PInf"
| "fl_add PInf NInf = NaN"
| "fl_add NInf (Fin b) = NInf"
| "fl_add NInf PInf = NaN"
| "fl_add NInf NInf = NInf"
| "fl_add NaN b = NaN"
| "fl_add a NaN = NaN"

definition fl_sub :: "fl \<Rightarrow> fl \<Rightarrow> fl" where
  "fl_sub a b = fl_add a (fl_neg b)"

text \<open>An infinity times or over a finite number: the sign decides, and \<open>\<infinity> * 0\<close> is NaN.\<close>

definition inf_times :: "real \<Rightarrow> fl" where
  "inf_times b = (if b = 0 then NaN else if 0 < b then PInf else NInf)"

fun fl_mul :: "fl \<Rightarrow> fl \<Rightarrow> fl" where
  "fl_mul (Fin a) (Fin b) = Fin (a * b)"
| "fl_mul (Fin a) PInf = inf_times a"
| "fl_mul (Fin a) NInf = inf_times (- a)"
| "fl_mul PInf (Fin b) = inf_times b"
| "fl_mul PInf PInf = PInf"
| "fl_mul PInf NInf = NInf"
| "fl_mul NInf (Fin b) = inf_times (- b)"
| "fl_mul NInf PInf = NInf"
| "fl_mul NInf NInf = PInf"
| "fl_mul NaN b = NaN"
| "fl_mul a NaN = NaN"

fun fl_div :: "fl \<Rightarrow> fl \<Rightarrow> fl" where
  "fl_div (Fin a) (Fin b) =
     (if b = 0 then (if a = 0 then NaN else if 0 < a then PInf else NInf) else Fin (a / b))"
| "fl_div (Fin a) PInf = Fin 0"
| "fl_div (Fin a) NInf = Fin 0"
| "fl_div PInf (Fin b) = (if 0 \<le> b then PInf else NInf)"
| "fl_div NInf (Fin b) = (if 0 \<le> b then NInf else PInf)"
| "fl_div PInf PInf = NaN"
| "fl_div PInf NInf = NaN"
| "fl_div NInf PInf = NaN"
| "fl_div NInf NInf = NaN"
| "fl_div NaN b = NaN"
| "fl_div a NaN = NaN"

fun fl_sqrt :: "fl \<Rightarrow> fl" where
  "fl_sqrt (Fin a) = (if a < 0 then NaN else Fin (sqrt a))"
| "fl_sqrt PInf = PInf"
| "fl_sqrt NInf = NaN"
| "fl_sqrt NaN = NaN"

fun fl_cbrt :: "fl \<Rightarrow> fl" where
  "fl_cbrt (Fin a) = Fin (root 3 a)"
| "fl_cbrt PInf = PInf"
| "fl_cbrt NInf = NInf"
| "fl_cbrt NaN = NaN"

type_synonym fvec3 = "fl \<times> fl \<times> fl"

fun allfinite :: "fvec3 \<Rightarrow> bool" where
  "allfinite (a, b, c) = (isfinite a \<and> isfinite b \<and> isfinite c)"

fun fvadd :: "fvec3 \<Rightarrow> fvec3 \<Rightarrow> fvec3" where
  "fvadd (a, b, c) (x, y, z) = (fl_add a x, fl_add b y, fl_add c z)"

fun fvsub :: "fvec3 \<Rightarrow> fvec3 \<Rightarrow> fvec3" where
  "fvsub (a, b, c) (x, y, z) = (fl_sub a x, fl_sub b y, fl_sub c z)"

fun fvscale :: "fvec3 \<Rightarrow> fl \<Rightarrow> fvec3" where
  "fvscale (a, b, c) k = (fl_mul a k, fl_mul b k, fl_mul c k)"

fun fvdiv :: "fvec3 \<Rightarrow> fl \<Rightarrow> fvec3" where
  "fvdiv (a, b, c) k = (fl_div a k, fl_div b k, fl_div c k)"

fun fvector_norm :: "fvec3 \<Rightarrow> fl" where
  "fvector_norm (x, y, z) = fl_sqrt (fl_add (fl_add (fl_mul x x) (fl_mul y y)) (fl_mul z z))"

definition fnormalize_vector :: "fvec3 \<Rightarrow> fvec3" where
  "fnormalize_vector x = fvdiv x (fvector_norm x)"

record L1L2LagrangePoints_fl =
  l1_fl :: fvec3
  l2_fl :: fvec3

text \<open>
  Lines 77 to 83 of \<^verbatim>\<open>register_funcs.py\<close> again, with the tidal radius as a
  parameter as before.
\<close>

definition lagrange_points_fl ::
  "('pot \<Rightarrow> fvec3 \<Rightarrow> fvec3 \<Rightarrow> fl \<Rightarrow> fl \<Rightarrow> fl) \<Rightarrow> 'pot \<Rightarrow> fvec3 \<Rightarrow> fvec3 \<Rightarrow> fl \<Rightarrow> fl
     \<Rightarrow> L1L2LagrangePoints_fl" where
  "lagrange_points_fl tidal_radius potential x v mass t =
     (let r_t = tidal_radius potential x v mass t;
          r_hat = fnormalize_vector x;
          l1 = fvsub x (fvscale r_hat r_t);
          l2 = fvadd x (fvscale r_hat r_t)
      in \<lparr>l1_fl = l1, l2_fl = l2\<rparr>)"

text \<open>
  Modelled from the spec: the King (1962) relation of \<open>tidal_radius_king1962\<close> above,
  over the same values.
\<close>

record host_potential_fl =
  host_G_fl :: fl
  d2potential_dr2_fl :: "fvec3 \<Rightarrow> fl \<Rightarrow> fl"

fun fcross :: "fvec3 \<Rightarrow> fvec3 \<Rightarrow> fvec3" where
  "fcross (a, b, c) (x, y, z) =
     (fl_sub (fl_mul b z) (fl_mul c y),
      fl_sub (fl_mul c x) (fl_mul a z),
      fl_sub (fl_mul a y) (fl_mul b x))"

definition orbital_angular_velocity_fl :: "fvec3 \<Rightarrow> fvec3 \<Rightarrow> fl" where
  "orbital_angular_velocity_fl x v =
     fl_div (fvector_norm (fcross x v)) (fl_mul (fvector_norm x) (fvector_norm x))"

definition tidal_radius_king1962_fl ::
  "host_potential_fl \<Rightarrow> fvec3 \<Rightarrow> fvec3 \<Rightarrow> fl \<Rightarrow> fl \<Rightarrow> fl" where
  "tidal_radius_king1962_fl pot x v mass t =
     fl_cbrt (fl_div (fl_mul (host_G_fl pot) mass)
       (fl_sub (fl_mul (orbital_angular_velocity_fl x v) (orbital_angular_velocity_fl x v))
               (d2potential_dr2_fl pot x t)))"


section \<open>Properties of the composite length\<close>

lemma foldl_plus_shift: "foldl (+) (a::nat) xs = a + sum_list xs"
  by (induction xs arbitrary: a) (simp_all add: add.assoc)

lemma py_sum_sum_list: "py_sum xs = sum_list xs"
  by (simp add: py_sum_def foldl_plus_shift)

lemma sum_list_py_or:
  "sum_list (map (\<lambda>w. py_or (f w) 1) ws)
     = sum_list (map f ws) + length (filter (\<lambda>w. f w = 0) ws)"
  by (induction ws) (simp_all add: py_or_def)

text \<open>
  Claim C9. The length of a composite phase-space position is the sum of the lengths of
  its components in which every component of length 0 counts as 1: it is the sum of the
  component lengths plus the number of components of length 0, and equally the sum over
  the components of "1 if the length is 0, the length otherwise".
\<close>

theorem composite_len_sum:
  "composite_len len_w self
     = sum_list (map len_w (values_of self))
       + length (filter (\<lambda>w. len_w w = 0) (values_of self))
   \<and> composite_len len_w self
     = sum_list (map (\<lambda>w. if len_w w = 0 then 1 else len_w w) (values_of self))"
proof -
  have a: "composite_len len_w self
      = sum_list (map (\<lambda>w. py_or (len_w w) 1) (values_of self))"
    by (simp add: composite_len_def py_sum_sum_list)
  have b: "(\<lambda>w. py_or (len_w w) 1) = (\<lambda>w. if len_w w = 0 then 1 else len_w w)"
    by (simp add: py_or_def fun_eq_iff)
  show ?thesis
    using a b sum_list_py_or [of len_w "values_of self"] by simp
qed


section \<open>Evaluation of the multipole potentials as a series\<close>

subsection \<open>The batch as a list: element-wise operations and the summation\<close>

lemma map2_same: "map2 f xs (map g xs) = map (\<lambda>x. f x (g x)) xs"
  by (induction xs) simp_all

lemma map2_maps: "map2 f (map g xs) (map h xs) = map (\<lambda>x. f (g x) (h x)) xs"
  by (induction xs) simp_all

lemma cartesian_to_normalized_spherical_map:
  "cartesian_to_normalized_spherical qs rs =
     (map (\<lambda>q. fst (normalized_spherical q rs)) qs,
      map (\<lambda>q. fst (snd (normalized_spherical q rs))) qs,
      map (\<lambda>q. snd (snd (normalized_spherical q rs))) qs)"
  by (simp add: cartesian_to_normalized_spherical_def normalized_spherical_def map2_same)

lemma tril_pairs:
  "zip (fst (tril_indices n)) (snd (tril_indices n))
     = concat (map (\<lambda>l. map (Pair l) [0..<Suc l]) [0..<n])"
proof (induction n)
  case 0
  show ?case by (simp add: tril_indices_def)
next
  case (Suc n)
  have len: "length (concat (map (\<lambda>l. replicate (l + 1) l) [0..<n]))
      = length (concat (map (\<lambda>l. [0..<l + 1]) [0..<n]))"
    by (induction n) simp_all
  have last: "zip (replicate (n + 1) n) [0..<n + 1] = map (Pair n) [0..<Suc n]"
    by (simp add: zip_replicate1 del: upt_Suc replicate_Suc)
  have "zip (fst (tril_indices (Suc n))) (snd (tril_indices (Suc n)))
      = zip (concat (map (\<lambda>l. replicate (l + 1) l) [0..<n]) @ replicate (n + 1) n)
            (concat (map (\<lambda>l. [0..<l + 1]) [0..<n]) @ [0..<n + 1])"
    by (simp add: tril_indices_def del: replicate_Suc)
  also have "\<dots> = zip (fst (tril_indices n)) (snd (tril_indices n)) @ map (Pair n) [0..<Suc n]"
    using len last by (simp add: tril_indices_def del: upt_Suc replicate_Suc)
  also have "\<dots> = concat (map (\<lambda>l. map (Pair l) [0..<Suc l]) [0..<Suc n])"
    using Suc by simp
  finally show ?case .
qed

lemma foldl_map2_plus:
  "foldl (map2 (+)) (map a qs) (map (\<lambda>k. map (h k) qs) ks)
     = map (\<lambda>q. a q + sum_list (map (\<lambda>k. h k q) ks)) qs"
proof (induction ks arbitrary: a)
  case Nil
  show ?case by simp
next
  case (Cons k ks)
  have "map2 (+) (map a qs) (map (h k) qs) = map (\<lambda>q. a q + h k q) qs"
    by (rule map2_maps)
  then show ?case
    using Cons [of "\<lambda>q. a q + h k q"] by (simp add: add.assoc)
qed

lemma sum_axis0_rows:
  "sum_axis0 (length qs) (map (\<lambda>k. map (h k) qs) ks)
     = map (\<lambda>q. sum_list (map (\<lambda>k. h k q) ks)) qs"
proof -
  have "replicate (length qs) (0::real) = map (\<lambda>q. 0) qs"
    by (simp add: map_replicate_const)
  then show ?thesis
    using foldl_map2_plus [of "\<lambda>q. 0" qs h ks] by (simp add: sum_axis0_def)
qed

lemma sum_list_upt_atMost: "sum_list (map g [0..<Suc n]) = (\<Sum>k\<le>n. g k)"
  by (simp only: interv_sum_list_conv_sum_set_nat set_upt atLeast0LessThan lessThan_Suc_atMost)

lemma sum_list_concat_real: "sum_list (concat xss) = sum_list (map sum_list (xss :: real list list))"
  by (induction xss) simp_all

lemma sum_list_tril:
  "sum_list (map (\<lambda>(l, m). f l m) (concat (map (\<lambda>l. map (Pair l) [0..<Suc l]) [0..<Suc lmax])))
     = multipole_sum lmax f"
proof -
  have "sum_list (map (\<lambda>(l, m). f l m) (concat (map (\<lambda>l. map (Pair l) [0..<Suc l]) [0..<Suc lmax])))
      = sum_list (map (\<lambda>l. sum_list (map (f l) [0..<Suc l])) [0..<Suc lmax])"
    by (simp add: sum_list_concat_real map_concat comp_def del: upt_Suc)
  also have "\<dots> = sum_list (map (\<lambda>l. \<Sum>m\<le>l. f l m) [0..<Suc lmax])"
    by (simp only: sum_list_upt_atMost)
  also have "\<dots> = (\<Sum>l\<le>lmax. \<Sum>m\<le>l. f l m)"
    by (rule sum_list_upt_atMost)
  finally show ?thesis by (simp add: multipole_sum_def)
qed


lemma summation_tril:
  assumes "\<And>l m. g l m = map (h l m) qs"
  shows "sum_axis0 (length qs)
           (map2 g (fst (tril_indices (Suc lmax))) (snd (tril_indices (Suc lmax))))
         = map (\<lambda>q. multipole_sum lmax (\<lambda>l m. h l m q)) qs"
proof -
  let ?pairs = "concat (map (\<lambda>l. map (Pair l) [0..<Suc l]) [0..<Suc lmax])"
  have "map2 g (fst (tril_indices (Suc lmax))) (snd (tril_indices (Suc lmax)))
      = map (\<lambda>k. map (\<lambda>q. h (fst k) (snd k) q) qs) ?pairs"
    by (simp add: tril_pairs assms case_prod_beta del: upt_Suc)
  then have "sum_axis0 (length qs)
           (map2 g (fst (tril_indices (Suc lmax))) (snd (tril_indices (Suc lmax))))
      = map (\<lambda>q. sum_list (map (\<lambda>k. h (fst k) (snd k) q) ?pairs)) qs"
    by (simp only: sum_axis0_rows)
  also have "\<dots> = map (\<lambda>q. sum_list (map (\<lambda>(l, m). h l m q) ?pairs)) qs"
    by (simp only: case_prod_unfold)
  also have "\<dots> = map (\<lambda>q. multipole_sum lmax (\<lambda>l m. h l m q)) qs"
    by (simp only: sum_list_tril)
  finally show ?thesis .
qed

lemma compute_Ylm_map:
  "compute_Ylm Y l m (map th qs) (map ph qs) lmax
     = (map (\<lambda>q. Re (Y m l (ph q) (th (hd qs)) lmax)) qs, map (\<lambda>q. Im (Y m l (ph q) (th (hd qs)) lmax)) qs)"
  by (cases qs) (simp_all add: compute_Ylm_def comp_def)

lemma inner_summand_map:
  "inner_summand Y lmax S T (map s qs) (map th qs) (map ph qs) l m
     = map (\<lambda>q. s q ^ l * (item S l m * Re (Y m l (ph q) (th (hd qs)) lmax)
                           + item T l m * Im (Y m l (ph q) (th (hd qs)) lmax))) qs"
  by (simp add: inner_summand_def compute_Ylm_map map2_maps comp_def)

lemma outer_summand_map:
  "outer_summand Y lmax S T (map s qs) (map th qs) (map ph qs) l m
     = map (\<lambda>q. s q powi (- (int l + 1)) * (item S l m * Re (Y m l (ph q) (th (hd qs)) lmax)
                           + item T l m * Im (Y m l (ph q) (th (hd qs)) lmax))) qs"
  by (simp add: outer_summand_def compute_Ylm_map map2_maps comp_def)

lemma inner_summation:
  "sum_axis0 (length qs)
     (map2 (inner_summand Y lmax S T (map s qs) (map th qs) (map ph qs))
        (fst (tril_indices (Suc lmax))) (snd (tril_indices (Suc lmax))))
   = map (\<lambda>q. multipole_sum lmax
        (\<lambda>l m. s q ^ l * (item S l m * Re (Y m l (ph q) (th (hd qs)) lmax)
                           + item T l m * Im (Y m l (ph q) (th (hd qs)) lmax)))) qs"
  by (rule summation_tril) (rule inner_summand_map)

lemma outer_summation:
  "sum_axis0 (length qs)
     (map2 (outer_summand Y lmax S T (map s qs) (map th qs) (map ph qs))
        (fst (tril_indices (Suc lmax))) (snd (tril_indices (Suc lmax))))
   = map (\<lambda>q. multipole_sum lmax
        (\<lambda>l m. s q powi (- (int l + 1)) * (item S l m * Re (Y m l (ph q) (th (hd qs)) lmax)
                           + item T l m * Im (Y m l (ph q) (th (hd qs)) lmax)))) qs"
  by (rule summation_tril) (rule outer_summand_map)

lemma inner_potential_batch:
  "MultipoleInnerPotential_potential Y self (BtSz3 qs) t =
     BtSz0 (map (multipole_series (\<lambda>s l. s ^ l)
                   (\<lambda>l m theta phi. Re (Y m l phi (fst (snd (normalized_spherical (hd qs) (call_param (r_s self) t)))) (l_max self)))
                   (\<lambda>l m theta phi. Im (Y m l phi (fst (snd (normalized_spherical (hd qs) (call_param (r_s self) t)))) (l_max self))) self t) qs)"
  by (simp add: MultipoleInnerPotential_potential_def cartesian_to_normalized_spherical_map
      scale_summation_def Let_def split_beta inner_summation
      multipole_series_def)

lemma outer_potential_batch:
  "MultipoleOuterPotential_potential Y self (BtSz3 qs) t =
     BtSz0 (map (multipole_series (\<lambda>s l. s powi (- (int l + 1)))
                   (\<lambda>l m theta phi. Re (Y m l phi (fst (snd (normalized_spherical (hd qs) (call_param (r_s self) t)))) (l_max self)))
                   (\<lambda>l m theta phi. Im (Y m l phi (fst (snd (normalized_spherical (hd qs) (call_param (r_s self) t)))) (l_max self))) self t) qs)"
  by (simp add: MultipoleOuterPotential_potential_def cartesian_to_normalized_spherical_map
      scale_summation_def Let_def split_beta outer_summation
      multipole_series_def)


lemma both_summand_map:
  "both_summand Y lmax IS IT OS OT (map s qs) (map th qs) (map ph qs) l m
     = map (\<lambda>q. s q ^ l * (item IS l m * Re (Y m l (ph q) (th (hd qs)) lmax)
                           + item IT l m * Im (Y m l (ph q) (th (hd qs)) lmax))
                + s q powi (- int l - 1) * (item OS l m * Re (Y m l (ph q) (th (hd qs)) lmax)
                           + item OT l m * Im (Y m l (ph q) (th (hd qs)) lmax))) qs"
  by (simp add: both_summand_def compute_Ylm_map map2_maps comp_def)

lemma both_summation:
  "sum_axis0 (length qs)
     (map2 (both_summand Y lmax IS IT OS OT (map s qs) (map th qs) (map ph qs))
        (fst (tril_indices (Suc lmax))) (snd (tril_indices (Suc lmax))))
   = map (\<lambda>q. multipole_sum lmax
        (\<lambda>l m. s q ^ l * (item IS l m * Re (Y m l (ph q) (th (hd qs)) lmax)
                           + item IT l m * Im (Y m l (ph q) (th (hd qs)) lmax))
                + s q powi (- int l - 1) * (item OS l m * Re (Y m l (ph q) (th (hd qs)) lmax)
                           + item OT l m * Im (Y m l (ph q) (th (hd qs)) lmax)))) qs"
  by (rule summation_tril) (rule both_summand_map)

lemma inner_summation1:
  "sum_axis0 (Suc 0)
     (map2 (inner_summand Y lmax S T [s] [th] [ph])
        (fst (tril_indices (Suc lmax))) (snd (tril_indices (Suc lmax))))
   = [multipole_sum lmax
        (\<lambda>l m. s ^ l * (item S l m * Re (Y m l ph th lmax)
                         + item T l m * Im (Y m l ph th lmax)))]"
  using inner_summation [of "[()]" Y lmax S T "\<lambda>_. s" "\<lambda>_. th" "\<lambda>_. ph"] by simp

lemma outer_summation1:
  "sum_axis0 (Suc 0)
     (map2 (outer_summand Y lmax S T [s] [th] [ph])
        (fst (tril_indices (Suc lmax))) (snd (tril_indices (Suc lmax))))
   = [multipole_sum lmax
        (\<lambda>l m. s powi (- (int l + 1)) * (item S l m * Re (Y m l ph th lmax)
                         + item T l m * Im (Y m l ph th lmax)))]"
  using outer_summation [of "[()]" Y lmax S T "\<lambda>_. s" "\<lambda>_. th" "\<lambda>_. ph"] by simp

lemma both_summation1:
  "sum_axis0 (Suc 0)
     (map2 (both_summand Y lmax IS IT OS OT [s] [th] [ph])
        (fst (tril_indices (Suc lmax))) (snd (tril_indices (Suc lmax))))
   = [multipole_sum lmax
        (\<lambda>l m. s ^ l * (item IS l m * Re (Y m l ph th lmax)
                         + item IT l m * Im (Y m l ph th lmax))
              + s powi (- int l - 1) * (item OS l m * Re (Y m l ph th lmax)
                         + item OT l m * Im (Y m l ph th lmax)))]"
  using both_summation [of "[()]" Y lmax IS IT OS OT "\<lambda>_. s" "\<lambda>_. th" "\<lambda>_. ph"] by simp

lemma inner_potential_scalar:
  "MultipoleInnerPotential_potential Y self (Sz3 q) t =
     Sz0 (multipole_series (\<lambda>s l. s ^ l)
            (\<lambda>l m theta phi. Re (Y m l phi theta (l_max self)))
            (\<lambda>l m theta phi. Im (Y m l phi theta (l_max self))) self t q)"
  by (simp add: MultipoleInnerPotential_potential_def cartesian_to_normalized_spherical_map
      scale_summation_def Let_def split_beta inner_summation1 multipole_series_def)

lemma outer_potential_scalar:
  "MultipoleOuterPotential_potential Y self (Sz3 q) t =
     Sz0 (multipole_series (\<lambda>s l. s powi (- (int l + 1)))
            (\<lambda>l m theta phi. Re (Y m l phi theta (l_max self)))
            (\<lambda>l m theta phi. Im (Y m l phi theta (l_max self))) self t q)"
  by (simp add: MultipoleOuterPotential_potential_def cartesian_to_normalized_spherical_map
      scale_summation_def Let_def split_beta outer_summation1 multipole_series_def)

text \<open>
  What the two methods compute on a batch: every position enters with its own \<open>s\<close>
  and azimuth, and with the polar angle of the first position of the batch.
\<close>

lemma potential_batch_first_polar:
  "MultipoleInnerPotential_potential Y self (BtSz3 (q0 # qs)) t =
     BtSz0 (map (multipole_series (\<lambda>s l. s ^ l)
        (\<lambda>l m theta phi. Re (Y m l phi
            (fst (snd (normalized_spherical q0 (call_param (r_s self) t)))) (l_max self)))
        (\<lambda>l m theta phi. Im (Y m l phi
            (fst (snd (normalized_spherical q0 (call_param (r_s self) t)))) (l_max self)))
        self t) (q0 # qs))
   \<and> MultipoleOuterPotential_potential Y self (BtSz3 (q0 # qs)) t =
     BtSz0 (map (multipole_series (\<lambda>s l. s powi (- (int l + 1)))
        (\<lambda>l m theta phi. Re (Y m l phi
            (fst (snd (normalized_spherical q0 (call_param (r_s self) t)))) (l_max self)))
        (\<lambda>l m theta phi. Im (Y m l phi
            (fst (snd (normalized_spherical q0 (call_param (r_s self) t)))) (l_max self)))
        self t) (q0 # qs))"
  using inner_potential_batch [of Y self "q0 # qs" t]
    outer_potential_batch [of Y self "q0 # qs" t]
  by simp

text \<open>
  Claim C1 says that for every batch of positions \<^verbatim>\<open>_potential\<close> returns, for each
  position, \<open>G m_tot / r_s\<close> times the sum over \<open>0 \<le> m \<le> l \<le> l_max\<close> of \<open>s ^ l\<close>
  (inner) or \<open>s ^ - (l + 1)\<close> (outer) times
  \<open>Slm[l, m] * Re Y_lm(\<theta>, \<phi>) + Tlm[l, m] * Im Y_lm(\<theta>, \<phi>)\<close> at the normalized spherical
  coordinates \<open>(s, \<theta>, \<phi>)\<close> of that position, as the docstrings of the two classes do.
  The code departs from it on a batch of more than one position. With \<open>l_max = 1\<close>,
  \<open>G = m_tot = r_s = 1\<close>, \<open>Slm = [[0, 0], [1, 0]]\<close>, \<open>Tlm = 0\<close> and the batch
  \<open>[(0, 0, 1), (1, 0, 0)]\<close>, whose polar angles are 0 and \<open>\<pi> / 2\<close>, both entries of the
  result are \<open>Re Y_10\<close> at the polar angle 0, for the inner and for the outer expansion,
  while the series of the claim at \<open>(1, 0, 0)\<close> is \<open>Re Y_10\<close> at the polar angle \<open>\<pi> / 2\<close>,
  which is also what the method returns for that position alone. For the spherical
  harmonic \<open>Y_10 = sqrt (3 / (4 \<pi>)) * cos \<theta>\<close> the batch gives about \<open>[0.4886, 0.4886]\<close> and
  the claim \<open>[0.4886, 0]\<close>.
\<close>

theorem multipole_batch_takes_first_polar_angle:
  "MultipoleInnerPotential_potential Y
      \<lparr>m_tot = ConstantParameter 1, r_s = ConstantParameter 1, l_max = 1, constants_G = 1,
       Slm = ConstantParameter \<lparr>shape = [2, 2], item = \<lambda>l m. if l = 1 \<and> m = 0 then 1 else 0\<rparr>,
       Tlm = ConstantParameter \<lparr>shape = [2, 2], item = \<lambda>l m. 0\<rparr>\<rparr>
      (BtSz3 [(0, 0, 1), (1, 0, 0)]) 0
     = BtSz0 [Re (Y 0 1 0 0 1), Re (Y 0 1 0 0 1)]
   \<and> MultipoleOuterPotential_potential Y
      \<lparr>m_tot = ConstantParameter 1, r_s = ConstantParameter 1, l_max = 1, constants_G = 1,
       Slm = ConstantParameter \<lparr>shape = [2, 2], item = \<lambda>l m. if l = 1 \<and> m = 0 then 1 else 0\<rparr>,
       Tlm = ConstantParameter \<lparr>shape = [2, 2], item = \<lambda>l m. 0\<rparr>\<rparr>
      (BtSz3 [(0, 0, 1), (1, 0, 0)]) 0
     = BtSz0 [Re (Y 0 1 0 0 1), Re (Y 0 1 0 0 1)]
   \<and> multipole_series (\<lambda>s l. s ^ l)
        (\<lambda>l m theta phi. Re (Y m l phi theta 1)) (\<lambda>l m theta phi. Im (Y m l phi theta 1))
      \<lparr>m_tot = ConstantParameter 1, r_s = ConstantParameter 1, l_max = 1, constants_G = 1,
       Slm = ConstantParameter \<lparr>shape = [2, 2], item = \<lambda>l m. if l = 1 \<and> m = 0 then 1 else 0\<rparr>,
       Tlm = ConstantParameter \<lparr>shape = [2, 2], item = \<lambda>l m. 0\<rparr>\<rparr>
      0 (1, 0, 0)
     = Re (Y 0 1 0 (pi / 2) 1)
   \<and> MultipoleInnerPotential_potential Y
      \<lparr>m_tot = ConstantParameter 1, r_s = ConstantParameter 1, l_max = 1, constants_G = 1,
       Slm = ConstantParameter \<lparr>shape = [2, 2], item = \<lambda>l m. if l = 1 \<and> m = 0 then 1 else 0\<rparr>,
       Tlm = ConstantParameter \<lparr>shape = [2, 2], item = \<lambda>l m. 0\<rparr>\<rparr>
      (Sz3 (1, 0, 0)) 0
     = Sz0 (Re (Y 0 1 0 (pi / 2) 1))
   \<and> MultipoleOuterPotential_potential Y
      \<lparr>m_tot = ConstantParameter 1, r_s = ConstantParameter 1, l_max = 1, constants_G = 1,
       Slm = ConstantParameter \<lparr>shape = [2, 2], item = \<lambda>l m. if l = 1 \<and> m = 0 then 1 else 0\<rparr>,
       Tlm = ConstantParameter \<lparr>shape = [2, 2], item = \<lambda>l m. 0\<rparr>\<rparr>
      (Sz3 (1, 0, 0)) 0
     = Sz0 (Re (Y 0 1 0 (pi / 2) 1))"
  by (simp add: potential_batch_first_polar inner_potential_scalar outer_potential_scalar
      multipole_series_def multipole_sum_def normalized_spherical_def atan2_def)

text \<open>
  Claim C5. With \<open>l_max = 0\<close>, \<open>S00 = 1\<close> and \<open>T00 = 0\<close>, and the degree-zero spherical
  harmonic being a constant \<open>c\<close>, the outer expansion is \<open>G m_tot Re c / r\<close> at every
  position (a scalar or a batch), proportional to \<open>1 / r\<close> like the potential of a point
  mass, and the inner expansion is the constant \<open>G m_tot / r_s * Re c\<close>, the same at every
  position. The scale radius is not zero.
\<close>

theorem monopole_closed_form:
  assumes lmax: "l_max self = 0"
    and S00: "item (call_param (Slm self) t) 0 0 = 1"
    and T00: "item (call_param (Tlm self) t) 0 0 = 0"
    and Y00: "\<And>az pol. Y 0 0 az pol 0 = c"
    and rs: "call_param (r_s self) t \<noteq> 0"
  shows "MultipoleOuterPotential_potential Y self (Sz3 q) t
           = Sz0 (constants_G self * call_param (m_tot self) t * Re c / vector_norm q)
       \<and> MultipoleOuterPotential_potential Y self (BtSz3 qs) t
           = BtSz0 (map (\<lambda>q. constants_G self * call_param (m_tot self) t * Re c / vector_norm q) qs)
       \<and> MultipoleInnerPotential_potential Y self (Sz3 q) t
           = Sz0 (constants_G self * call_param (m_tot self) t / call_param (r_s self) t * Re c)
       \<and> MultipoleInnerPotential_potential Y self (BtSz3 qs) t
           = BtSz0 (map (\<lambda>q. constants_G self * call_param (m_tot self) t / call_param (r_s self) t * Re c) qs)"
proof -
  have outer: "multipole_series (\<lambda>s l. s powi (- (int l + 1)))
                (\<lambda>l m theta phi. Re (Y m l phi th0 (l_max self)))
                (\<lambda>l m theta phi. Im (Y m l phi th0 (l_max self))) self t
      = (\<lambda>x. constants_G self * call_param (m_tot self) t * Re c / vector_norm x)" for th0
    using rs by (simp add: fun_eq_iff multipole_series_def multipole_sum_def
        normalized_spherical_def lmax S00 T00 Y00 power_int_minus field_simps)
  have inner: "multipole_series (\<lambda>s l. s ^ l)
                (\<lambda>l m theta phi. Re (Y m l phi th0 (l_max self)))
                (\<lambda>l m theta phi. Im (Y m l phi th0 (l_max self))) self t
      = (\<lambda>x. constants_G self * call_param (m_tot self) t / call_param (r_s self) t * Re c)"
    for th0
    by (simp add: fun_eq_iff multipole_series_def multipole_sum_def normalized_spherical_def
        lmax S00 T00 Y00)
  have outer1: "multipole_series (\<lambda>s l. s powi (- (int l + 1)))
                (\<lambda>l m theta phi. Re (Y m l phi theta (l_max self)))
                (\<lambda>l m theta phi. Im (Y m l phi theta (l_max self))) self t
      = (\<lambda>x. constants_G self * call_param (m_tot self) t * Re c / vector_norm x)"
    using rs by (simp add: fun_eq_iff multipole_series_def multipole_sum_def
        normalized_spherical_def lmax S00 T00 Y00 power_int_minus field_simps)
  have inner1: "multipole_series (\<lambda>s l. s ^ l)
                (\<lambda>l m theta phi. Re (Y m l phi theta (l_max self)))
                (\<lambda>l m theta phi. Im (Y m l phi theta (l_max self))) self t
      = (\<lambda>x. constants_G self * call_param (m_tot self) t / call_param (r_s self) t * Re c)"
    by (simp add: fun_eq_iff multipole_series_def multipole_sum_def normalized_spherical_def
        lmax S00 T00 Y00)
  show ?thesis
    by (simp only: outer_potential_scalar outer_potential_batch inner_potential_scalar
        inner_potential_batch outer inner outer1 inner1 simp_thms)
qed

theorem monopole_closed_form_witness:
  "l_max \<lparr>m_tot = ConstantParameter 3, r_s = ConstantParameter 2, l_max = 0, constants_G = 1,
         Slm = ConstantParameter \<lparr>shape = [1, 1], item = \<lambda>l m. 1\<rparr>,
         Tlm = ConstantParameter \<lparr>shape = [1, 1], item = \<lambda>l m. 0\<rparr>\<rparr> = 0
   \<and> item (call_param (ConstantParameter \<lparr>shape = [1, 1], item = \<lambda>l m. 1\<rparr>) 0) 0 0 = 1
   \<and> item (call_param (ConstantParameter \<lparr>shape = [1, 1], item = \<lambda>l m. 0\<rparr>) 0) 0 0 = 0
   \<and> (\<forall>az pol. (\<lambda>m l az pol n. 1) (0::nat) (0::nat) (az::real) (pol::real) (0::nat) = (1::complex))
   \<and> call_param (ConstantParameter (2::real)) 0 \<noteq> 0
   \<and> MultipoleOuterPotential_potential (\<lambda>m l az pol n. 1)
        \<lparr>m_tot = ConstantParameter 3, r_s = ConstantParameter 2, l_max = 0, constants_G = 1,
         Slm = ConstantParameter \<lparr>shape = [1, 1], item = \<lambda>l m. 1\<rparr>,
         Tlm = ConstantParameter \<lparr>shape = [1, 1], item = \<lambda>l m. 0\<rparr>\<rparr>
        (Sz3 (2, 0, 0)) 0 = Sz0 (3 / 2)
   \<and> MultipoleOuterPotential_potential (\<lambda>m l az pol n. 1)
        \<lparr>m_tot = ConstantParameter 3, r_s = ConstantParameter 2, l_max = 0, constants_G = 1,
         Slm = ConstantParameter \<lparr>shape = [1, 1], item = \<lambda>l m. 1\<rparr>,
         Tlm = ConstantParameter \<lparr>shape = [1, 1], item = \<lambda>l m. 0\<rparr>\<rparr>
        (BtSz3 [(2, 0, 0), (0, 0, 4)]) 0 = BtSz0 [3 / 2, 3 / 4]
   \<and> MultipoleInnerPotential_potential (\<lambda>m l az pol n. 1)
        \<lparr>m_tot = ConstantParameter 3, r_s = ConstantParameter 2, l_max = 0, constants_G = 1,
         Slm = ConstantParameter \<lparr>shape = [1, 1], item = \<lambda>l m. 1\<rparr>,
         Tlm = ConstantParameter \<lparr>shape = [1, 1], item = \<lambda>l m. 0\<rparr>\<rparr>
        (Sz3 (2, 0, 0)) 0 = Sz0 (3 / 2)
   \<and> MultipoleInnerPotential_potential (\<lambda>m l az pol n. 1)
        \<lparr>m_tot = ConstantParameter 3, r_s = ConstantParameter 2, l_max = 0, constants_G = 1,
         Slm = ConstantParameter \<lparr>shape = [1, 1], item = \<lambda>l m. 1\<rparr>,
         Tlm = ConstantParameter \<lparr>shape = [1, 1], item = \<lambda>l m. 0\<rparr>\<rparr>
        (BtSz3 [(2, 0, 0), (0, 0, 4)]) 0 = BtSz0 [3 / 2, 3 / 2]"
  using monopole_closed_form [of
        "\<lparr>m_tot = ConstantParameter 3, r_s = ConstantParameter 2, l_max = 0, constants_G = 1,
         Slm = ConstantParameter \<lparr>shape = [1, 1], item = \<lambda>l m. 1\<rparr>,
         Tlm = ConstantParameter \<lparr>shape = [1, 1], item = \<lambda>l m. 0\<rparr>\<rparr>"
        0 "\<lambda>m l az pol n. 1" 1 "(2, 0, 0)" "[(2, 0, 0), (0, 0, 4)]"]
  by simp

text \<open>
  Claim C8. A single position is promoted to a batch of one
  (\<^verbatim>\<open>jnp.atleast_2d\<close>), and every multipole potential (inner, outer and combined)
  returns for it the scalar that is the one element of its value on that batch of one.
\<close>

theorem scalar_input_promoted:
  "atleast_2d (Sz3 q) = [q]
   \<and> (\<exists>v. MultipoleInnerPotential_potential Y self (BtSz3 [q]) t = BtSz0 [v]
          \<and> MultipoleInnerPotential_potential Y self (Sz3 q) t = Sz0 v)
   \<and> (\<exists>v. MultipoleOuterPotential_potential Y self (BtSz3 [q]) t = BtSz0 [v]
          \<and> MultipoleOuterPotential_potential Y self (Sz3 q) t = Sz0 v)
   \<and> (\<exists>v. MultipolePotential_potential Y both (BtSz3 [q]) t = BtSz0 [v]
          \<and> MultipolePotential_potential Y both (Sz3 q) t = Sz0 v)"
proof -
  have "\<exists>v. MultipolePotential_potential Y both (BtSz3 [q]) t = BtSz0 [v]
          \<and> MultipolePotential_potential Y both (Sz3 q) t = Sz0 v"
    by (simp add: MultipolePotential_potential_def cartesian_to_normalized_spherical_map
      scale_summation_def Let_def split_beta both_summation1)
  then show ?thesis
    by (simp add: inner_potential_batch inner_potential_scalar
        outer_potential_batch outer_potential_scalar multipole_series_def
        Let_def split_beta)
qed


section \<open>Shape validation of the coefficient arrays\<close>

text \<open>
  Claim C4. Constructing an inner, an outer or a combined multipole potential with a
  coefficient array (\<open>Slm\<close>, \<open>Tlm\<close>, or \<open>ISlm\<close>, \<open>ITlm\<close>, \<open>OSlm\<close>, \<open>OTlm\<close>) whose
  shape is not \<open>(l_max + 1, l_max + 1)\<close> raises \<^verbatim>\<open>ValueError\<close> at construction. The
  shape that is checked is the one of the parameter's value when the potential is
  constructed (its value at \<open>t = 0\<close>), which for a supplied constant array is the shape of
  that array. Evaluation has no error result at all: \<^verbatim>\<open>_potential\<close> contains no shape
  check and no \<^verbatim>\<open>raise\<close>, and its embedding is a total function into
  \<open>potential_value\<close>, so this error can only come from construction.
\<close>

theorem shape_mismatch_raises_at_construction:
  "((shape (call_param S 0) \<noteq> [l + 1, l + 1] \<or> shape (call_param T 0) \<noteq> [l + 1, l + 1]) \<longrightarrow>
      (\<exists>msg. MultipoleInnerPotential_init m r l g S T = Inl (ValueError msg))
    \<and> (\<exists>msg. MultipoleOuterPotential_init m r l g S T = Inl (ValueError msg)))
   \<and> ((shape (call_param IS 0) \<noteq> [l + 1, l + 1] \<or> shape (call_param IT 0) \<noteq> [l + 1, l + 1]
        \<or> shape (call_param OS 0) \<noteq> [l + 1, l + 1] \<or> shape (call_param OT 0) \<noteq> [l + 1, l + 1]) \<longrightarrow>
      (\<exists>msg. MultipolePotential_init m r l g IS IT OS OT = Inl (ValueError msg)))
   \<and> ((shape a \<noteq> [l + 1, l + 1] \<or> shape b \<noteq> [l + 1, l + 1]) \<longrightarrow>
      (\<exists>msg. MultipoleInnerPotential_init m r l g (ConstantParameter a) (ConstantParameter b)
          = Inl (ValueError msg))
    \<and> (\<exists>msg. MultipoleOuterPotential_init m r l g (ConstantParameter a) (ConstantParameter b)
          = Inl (ValueError msg)))"
  by (simp add: MultipoleInnerPotential_init_def MultipoleOuterPotential_init_def
      MultipolePotential_init_def MultipoleInnerPotential_check_init_def
      MultipoleOuterPotential_check_init_def MultipolePotential_check_init_def Let_def)

theorem shape_mismatch_raises_at_construction_witness:
  "shape \<lparr>shape = [3], item = \<lambda>l m. 0\<rparr> \<noteq> [1 + 1, 1 + 1]
   \<and> MultipoleInnerPotential_init (ConstantParameter 1) (ConstantParameter 1) 1 1
        (ConstantParameter \<lparr>shape = [3], item = \<lambda>l m. 0\<rparr>)
        (ConstantParameter \<lparr>shape = [2, 2], item = \<lambda>l m. 0\<rparr>)
      = Inl (ValueError (''Slm and Tlm must have the shape (l_max + 1, l_max + 1).''
                 @ ''Slm shape: (3,), Tlm shape: (2, 2)''))
   \<and> (\<exists>msg. MultipoleOuterPotential_init (ConstantParameter 1) (ConstantParameter 1) 1 1
        (ConstantParameter \<lparr>shape = [3], item = \<lambda>l m. 0\<rparr>)
        (ConstantParameter \<lparr>shape = [2, 2], item = \<lambda>l m. 0\<rparr>)
      = Inl (ValueError msg))
   \<and> (\<exists>msg. MultipolePotential_init (ConstantParameter 1) (ConstantParameter 1) 1 1
        (ConstantParameter \<lparr>shape = [2, 2], item = \<lambda>l m. 0\<rparr>)
        (ConstantParameter \<lparr>shape = [2, 2], item = \<lambda>l m. 0\<rparr>)
        (ConstantParameter \<lparr>shape = [2, 2], item = \<lambda>l m. 0\<rparr>)
        (ConstantParameter \<lparr>shape = [3], item = \<lambda>l m. 0\<rparr>)
      = Inl (ValueError msg))"
  using shape_mismatch_raises_at_construction [of
      "ConstantParameter \<lparr>shape = [3], item = \<lambda>l m. 0\<rparr>" 1
      "ConstantParameter \<lparr>shape = [2, 2], item = \<lambda>l m. 0\<rparr>"
      "ConstantParameter 1" "ConstantParameter 1" 1
      "ConstantParameter \<lparr>shape = [2, 2], item = \<lambda>l m. 0\<rparr>"
      "ConstantParameter \<lparr>shape = [2, 2], item = \<lambda>l m. 0\<rparr>"
      "ConstantParameter \<lparr>shape = [2, 2], item = \<lambda>l m. 0\<rparr>"
      "ConstantParameter \<lparr>shape = [3], item = \<lambda>l m. 0\<rparr>"
      "\<lparr>shape = [3], item = \<lambda>l m. 0\<rparr>" "\<lparr>shape = [2, 2], item = \<lambda>l m. 0\<rparr>"]
  by (simp add: MultipoleInnerPotential_init_def MultipoleInnerPotential_check_init_def Let_def
      str_nat.simps)


text \<open>
  Claim C10. The shape validation reads the coefficient parameters at \<open>t = 0\<close> only: two
  potentials whose coefficient parameters agree at \<open>t = 0\<close> (and that have the same
  \<open>l_max\<close>) get the same verdict, whatever the parameters are at other times. So there is
  a time-dependent coefficient parameter whose value has the shape
  \<open>(l_max + 1, l_max + 1)\<close> at \<open>t = 0\<close> and another shape at some other time, with which
  the construction of each of the three potentials succeeds.
\<close>

theorem shape_check_only_at_time_zero:
  "((l_max self = l_max self' \<and> call_param (Slm self) 0 = call_param (Slm self') 0
       \<and> call_param (Tlm self) 0 = call_param (Tlm self') 0) \<longrightarrow>
      MultipoleInnerPotential_check_init self = MultipoleInnerPotential_check_init self'
    \<and> MultipoleOuterPotential_check_init self = MultipoleOuterPotential_check_init self')
   \<and> ((l_max both = l_max both' \<and> call_param (ISlm both) 0 = call_param (ISlm both') 0
       \<and> call_param (ITlm both) 0 = call_param (ITlm both') 0
       \<and> call_param (OSlm both) 0 = call_param (OSlm both') 0
       \<and> call_param (OTlm both) 0 = call_param (OTlm both') 0) \<longrightarrow>
      MultipolePotential_check_init both = MultipolePotential_check_init both')
   \<and> (\<exists>S t. shape (call_param S 0) = [l + 1, l + 1]
          \<and> shape (call_param S t) \<noteq> [l + 1, l + 1]
          \<and> (\<exists>p. MultipoleInnerPotential_init m r l g S S = Inr p)
          \<and> (\<exists>p. MultipoleOuterPotential_init m r l g S S = Inr p)
          \<and> (\<exists>p. MultipolePotential_init m r l g S S S S = Inr p))"
proof -
  let ?S = "UserParameter (\<lambda>t. \<lparr>shape = (if t = 0 then [l + 1, l + 1] else []),
                                  item = \<lambda>l m. 0\<rparr>)"
  have "shape (call_param ?S 0) = [l + 1, l + 1]
      \<and> shape (call_param ?S 1) \<noteq> [l + 1, l + 1]
      \<and> (\<exists>p. MultipoleInnerPotential_init m r l g ?S ?S = Inr p)
      \<and> (\<exists>p. MultipoleOuterPotential_init m r l g ?S ?S = Inr p)
      \<and> (\<exists>p. MultipolePotential_init m r l g ?S ?S ?S ?S = Inr p)"
    by (simp add: MultipoleInnerPotential_init_def MultipoleOuterPotential_init_def
      MultipolePotential_init_def MultipoleInnerPotential_check_init_def
      MultipoleOuterPotential_check_init_def MultipolePotential_check_init_def Let_def)
  then have ex: "\<exists>S t. shape (call_param S 0) = [l + 1, l + 1]
          \<and> shape (call_param S t) \<noteq> [l + 1, l + 1]
          \<and> (\<exists>p. MultipoleInnerPotential_init m r l g S S = Inr p)
          \<and> (\<exists>p. MultipoleOuterPotential_init m r l g S S = Inr p)
          \<and> (\<exists>p. MultipolePotential_init m r l g S S S S = Inr p)"
    by blast
  show ?thesis
    using ex
    by (simp add: MultipoleInnerPotential_check_init_def
      MultipoleOuterPotential_check_init_def MultipolePotential_check_init_def Let_def)
qed

theorem shape_check_only_at_time_zero_witness:
  "call_param (ConstantParameter \<lparr>shape = [2, 2], item = \<lambda>l m. 0\<rparr>) 0
      = call_param (UserParameter (\<lambda>t. \<lparr>shape = (if t = 0 then [2, 2] else [5]),
                                         item = \<lambda>l m. 0\<rparr>)) 0
   \<and> MultipoleInnerPotential_check_init
        \<lparr>m_tot = ConstantParameter 1, r_s = ConstantParameter 1, l_max = 1, constants_G = 1,
         Slm = ConstantParameter \<lparr>shape = [2, 2], item = \<lambda>l m. 0\<rparr>,
         Tlm = ConstantParameter \<lparr>shape = [2, 2], item = \<lambda>l m. 0\<rparr>\<rparr>
     = MultipoleInnerPotential_check_init
        \<lparr>m_tot = ConstantParameter 1, r_s = ConstantParameter 1, l_max = 1, constants_G = 1,
         Slm = UserParameter (\<lambda>t. \<lparr>shape = (if t = 0 then [2, 2] else [5]),
                                     item = \<lambda>l m. 0\<rparr>),
         Tlm = ConstantParameter \<lparr>shape = [2, 2], item = \<lambda>l m. 0\<rparr>\<rparr>
   \<and> MultipoleInnerPotential_check_init
        \<lparr>m_tot = ConstantParameter 1, r_s = ConstantParameter 1, l_max = 1, constants_G = 1,
         Slm = UserParameter (\<lambda>t. \<lparr>shape = (if t = 0 then [2, 2] else [5]),
                                     item = \<lambda>l m. 0\<rparr>),
         Tlm = ConstantParameter \<lparr>shape = [2, 2], item = \<lambda>l m. 0\<rparr>\<rparr> = Inr ()
   \<and> (\<exists>S t. shape (call_param S 0) = [1 + 1, 1 + 1]
          \<and> shape (call_param S t) \<noteq> [1 + 1, 1 + 1]
          \<and> (\<exists>p. MultipoleInnerPotential_init (ConstantParameter 1) (ConstantParameter 1)
                  1 1 S S = Inr p))"
proof -
  let ?A = "\<lparr>m_tot = ConstantParameter 1, r_s = ConstantParameter 1, l_max = 1, constants_G = 1,
         Slm = ConstantParameter \<lparr>shape = [2, 2], item = \<lambda>l m. 0\<rparr>,
         Tlm = ConstantParameter \<lparr>shape = [2, 2], item = \<lambda>l m. 0\<rparr>\<rparr>"
  let ?B = "\<lparr>m_tot = ConstantParameter 1, r_s = ConstantParameter 1, l_max = 1, constants_G = 1,
         Slm = UserParameter (\<lambda>t. \<lparr>shape = (if t = 0 then [2, 2] else [5]),
                                     item = \<lambda>l m. 0\<rparr>),
         Tlm = ConstantParameter \<lparr>shape = [2, 2], item = \<lambda>l m. 0\<rparr>\<rparr>"
  note inst = shape_check_only_at_time_zero [of ?A ?B _ _ 1 "ConstantParameter 1"
      "ConstantParameter 1" 1]
  have same: "MultipoleInnerPotential_check_init ?A = MultipoleInnerPotential_check_init ?B"
    using inst by simp
  have ok: "MultipoleInnerPotential_check_init ?B = Inr ()"
    by (simp add: MultipoleInnerPotential_check_init_def)
  have ex: "\<exists>S t. shape (call_param S 0) = [1 + 1, 1 + 1]
          \<and> shape (call_param S t) \<noteq> [1 + 1, 1 + 1]
          \<and> (\<exists>p. MultipoleInnerPotential_init (ConstantParameter 1) (ConstantParameter 1)
                  1 1 S S = Inr p)"
    using inst by blast
  show ?thesis
    using same ok ex by simp
qed



section \<open>Lagrange points\<close>

lemma vector_norm_vscale: "vector_norm (vscale u k) = \<bar>k\<bar> * vector_norm u"
proof (cases u)
  case (fields a b c)
  have "(a * k)\<^sup>2 + (b * k)\<^sup>2 + (c * k)\<^sup>2 = k\<^sup>2 * (a\<^sup>2 + b\<^sup>2 + c\<^sup>2)"
    by (simp add: power_mult_distrib algebra_simps)
  then show ?thesis
    using fields by (simp add: real_sqrt_mult)
qed

lemma vector_norm_zero_iff: "vector_norm u = 0 \<longleftrightarrow> u = (0, 0, 0)"
proof (cases u)
  case (fields a b c)
  have "a\<^sup>2 + b\<^sup>2 + c\<^sup>2 = 0 \<longleftrightarrow> a = 0 \<and> b = 0 \<and> c = 0"
    by (simp add: add_nonneg_eq_0_iff)
  then show ?thesis
    using fields by simp
qed

lemma vector_norm_normalize:
  assumes "x \<noteq> (0, 0, 0)"
  shows "vector_norm (normalize_vector x) = 1"
proof (cases x)
  case (fields a b c)
  let ?n = "vector_norm x"
  have n0: "?n \<noteq> 0" using assms by (simp add: vector_norm_zero_iff)
  have npos: "0 \<le> ?n" using fields by simp
  have "normalize_vector x = vscale x (1 / ?n)"
    using fields by (simp add: normalize_vector_def)
  then have "vector_norm (normalize_vector x) = \<bar>1 / ?n\<bar> * ?n"
    by (simp only: vector_norm_vscale)
  then show ?thesis using n0 npos by simp
qed

lemma vsub_vadd: "vsub (vadd x d) x = d"
  by (cases x, cases d) simp

lemma vsub_vsub: "vsub x (vsub x d) = d"
  by (cases x, cases d) simp

text \<open>
  In exact arithmetic and for a non-zero position, the two points are
  \<open>x - r_hat * r_t\<close> and \<open>x + r_hat * r_t\<close> with \<open>r_hat\<close> a unit vector, they are
  symmetric about \<open>x\<close>, and their distance from \<open>x\<close> is the absolute value of what the
  tidal-radius function returns; for a tidal radius that is not negative it is the tidal
  radius.
\<close>

lemma lagrange_points_offsets:
  assumes "x \<noteq> (0, 0, 0)"
  shows "l1 (lagrange_points tr pot x v mass t)
           = vsub x (vscale (normalize_vector x) (tr pot x v mass t))
       \<and> l2 (lagrange_points tr pot x v mass t)
           = vadd x (vscale (normalize_vector x) (tr pot x v mass t))
       \<and> vector_norm (normalize_vector x) = 1
       \<and> vsub (l2 (lagrange_points tr pot x v mass t)) x
           = vsub x (l1 (lagrange_points tr pot x v mass t))
       \<and> vector_norm (vsub (l2 (lagrange_points tr pot x v mass t)) x) = \<bar>tr pot x v mass t\<bar>
       \<and> vector_norm (vsub x (l1 (lagrange_points tr pot x v mass t))) = \<bar>tr pot x v mass t\<bar>"
  using vector_norm_normalize [OF assms]
  by (simp add: lagrange_points_def Let_def vsub_vadd vsub_vsub vector_norm_vscale)

lemma lagrange_points_distance_nonneg:
  assumes "x \<noteq> (0, 0, 0)" and "0 \<le> tr pot x v mass t"
  shows "vector_norm (vsub (l2 (lagrange_points tr pot x v mass t)) x) = tr pot x v mass t
       \<and> vector_norm (vsub x (l1 (lagrange_points tr pot x v mass t))) = tr pot x v mass t"
proof -
  have "\<bar>tr pot x v mass t\<bar> = tr pot x v mass t"
    using assms(2) by (rule abs_of_nonneg)
  then show ?thesis
    using lagrange_points_offsets [OF assms(1), of tr pot v mass t] by metis
qed

text \<open>
  Claim C2 says that \<^verbatim>\<open>lagrange_points\<close> returns \<open>l1 = x - r_hat * r_t\<close> and
  \<open>l2 = x + r_hat * r_t\<close>, symmetric about the progenitor position \<open>x\<close> at the distance
  \<open>|l2 - x| = |x - l1| = r_t\<close>; the source marks \<open>l1\<close> as the close point and \<open>l2\<close> as the
  far one. The code has no guard for a tidal radius that is negative, and then departs
  from this. Under the King (1962) relation, a host with \<open>d\<^sup>2\<Phi>/dr\<^sup>2 = 1\<close> (a harmonic
  potential) and \<open>G = 1\<close> and a progenitor of mass 1 at rest at \<open>(1, 0, 0)\<close> have the tidal
  radius \<open>r_t = cbrt (1 / (0 - 1)) = - 1\<close>. There the code returns \<open>l1 = (2, 0, 0)\<close> and
  \<open>l2 = (0, 0, 0)\<close>: the distance of \<open>l2\<close> from the progenitor is 1 and not \<open>r_t\<close>, and
  \<open>l1\<close> is the point farther from the host centre, \<open>l2\<close> the host centre itself.
\<close>

theorem lagrange_points_negative_tidal_radius:
  "tidal_radius_king1962 \<lparr>host_G = 1, d2potential_dr2 = \<lambda>x t. 1\<rparr> (1, 0, 0) (0, 0, 0) 1 0 = - 1
   \<and> lagrange_points tidal_radius_king1962 \<lparr>host_G = 1, d2potential_dr2 = \<lambda>x t. 1\<rparr>
        (1, 0, 0) (0, 0, 0) 1 0 = \<lparr>l1 = (2, 0, 0), l2 = (0, 0, 0)\<rparr>
   \<and> vector_norm (vsub (l2 (lagrange_points tidal_radius_king1962
            \<lparr>host_G = 1, d2potential_dr2 = \<lambda>x t. 1\<rparr> (1, 0, 0) (0, 0, 0) 1 0)) (1, 0, 0)) = 1
   \<and> vector_norm (vsub (l2 (lagrange_points tidal_radius_king1962
            \<lparr>host_G = 1, d2potential_dr2 = \<lambda>x t. 1\<rparr> (1, 0, 0) (0, 0, 0) 1 0)) (1, 0, 0))
       \<noteq> tidal_radius_king1962 \<lparr>host_G = 1, d2potential_dr2 = \<lambda>x t. 1\<rparr> (1, 0, 0) (0, 0, 0) 1 0
   \<and> vector_norm (l2 (lagrange_points tidal_radius_king1962
            \<lparr>host_G = 1, d2potential_dr2 = \<lambda>x t. 1\<rparr> (1, 0, 0) (0, 0, 0) 1 0))
       < vector_norm (l1 (lagrange_points tidal_radius_king1962
            \<lparr>host_G = 1, d2potential_dr2 = \<lambda>x t. 1\<rparr> (1, 0, 0) (0, 0, 0) 1 0))"
proof -
  have rt: "tidal_radius_king1962 \<lparr>host_G = 1, d2potential_dr2 = \<lambda>x t. 1\<rparr>
      (1, 0, 0) (0, 0, 0) 1 0 = - 1"
    by (simp add: tidal_radius_king1962_def orbital_angular_velocity_def real_root_minus)
  show ?thesis
    by (simp add: rt lagrange_points_def normalize_vector_def)
qed

text \<open>
  Claim C6. Each overload of \<^verbatim>\<open>lagrange_points\<close> reduces its input to a position
  vector, a velocity vector and a time, and returns what the vector form returns for
  them: a space holding a position under \<^verbatim>\<open>"length"\<close> and a velocity under
  \<^verbatim>\<open>"speed"\<close>, a coordinate whose data is such a space, a phase-space coordinate
  (its \<open>q\<close>, \<open>p\<close> and squeezed \<open>t\<close>), and a phase-space position with a separate time.
  The vector form itself is the entry point for raw vectors.
\<close>

theorem lagrange_points_overloads:
  "((space ''length'' = Some x \<and> space ''speed'' = Some v) \<longrightarrow>
      lagrange_points_Space tr pot space mass t = Inr (lagrange_points tr pot x v mass t))
   \<and> ((data coord ''length'' = Some x \<and> data coord ''speed'' = Some v) \<longrightarrow>
      lagrange_points_Coordinate tr pot coord mass t = Inr (lagrange_points tr pot x v mass t))
   \<and> lagrange_points_PhaseSpaceCoordinate tr pot wc mass
      = lagrange_points tr pot (w_q wc) (w_p wc) mass (squeeze (w_t wc))
   \<and> lagrange_points_PhaseSpacePosition tr pot w mass t
      = lagrange_points tr pot (w_q w) (w_p w) mass t"
  by (simp add: lagrange_points_Space_def lagrange_points_Coordinate_def getitem_def
      lagrange_points_PhaseSpaceCoordinate_def lagrange_points_PhaseSpacePosition_def)

theorem lagrange_points_overloads_witness:
  "[''length'' \<mapsto> (8, 0, 0), ''speed'' \<mapsto> (0, 220, 0)] ''length'' = Some ((8, 0, 0) :: vec3)
   \<and> [''length'' \<mapsto> (8, 0, 0), ''speed'' \<mapsto> (0, 220, 0)] ''speed'' = Some ((0, 220, 0) :: vec3)
   \<and> lagrange_points_Space tidal_radius_king1962 \<lparr>host_G = 1, d2potential_dr2 = \<lambda>x t. - 1\<rparr>
        [''length'' \<mapsto> (8, 0, 0), ''speed'' \<mapsto> (0, 220, 0)] 2 0
      = Inr (lagrange_points tidal_radius_king1962 \<lparr>host_G = 1, d2potential_dr2 = \<lambda>x t. - 1\<rparr>
               (8, 0, 0) (0, 220, 0) 2 0)
   \<and> lagrange_points_Coordinate tidal_radius_king1962 \<lparr>host_G = 1, d2potential_dr2 = \<lambda>x t. - 1\<rparr>
        \<lparr>data = [''length'' \<mapsto> (8, 0, 0), ''speed'' \<mapsto> (0, 220, 0)], frame = ''ICRS''\<rparr> 2 0
      = Inr (lagrange_points tidal_radius_king1962 \<lparr>host_G = 1, d2potential_dr2 = \<lambda>x t. - 1\<rparr>
               (8, 0, 0) (0, 220, 0) 2 0)
   \<and> lagrange_points_PhaseSpaceCoordinate tidal_radius_king1962
        \<lparr>host_G = 1, d2potential_dr2 = \<lambda>x t. - 1\<rparr>
        \<lparr>w_q = (8, 0, 0), w_p = (0, 220, 0), w_t = TimeSz1 0\<rparr> 2
      = lagrange_points tidal_radius_king1962 \<lparr>host_G = 1, d2potential_dr2 = \<lambda>x t. - 1\<rparr>
               (8, 0, 0) (0, 220, 0) 2 0"
  using lagrange_points_overloads [of
      "[''length'' \<mapsto> (8, 0, 0), ''speed'' \<mapsto> (0, 220, 0)]" "(8, 0, 0)" "(0, 220, 0)"
      tidal_radius_king1962 "\<lparr>host_G = 1, d2potential_dr2 = \<lambda>x t. - 1\<rparr>" 2 0
      "\<lparr>data = [''length'' \<mapsto> (8, 0, 0), ''speed'' \<mapsto> (0, 220, 0)], frame = ''ICRS''\<rparr>"
      "\<lparr>w_q = (8, 0, 0), w_p = (0, 220, 0), w_t = TimeSz1 0\<rparr>"]
  by simp


section \<open>Non-finite inputs to the Lagrange points\<close>

lemma fl_mul_NaN_left: "fl_mul NaN k = NaN"
  by (cases k) simp_all

lemma fl_add_NaN_right: "fl_add a NaN = NaN"
  by (cases a) simp_all

lemma fl_sub_NaN_right: "fl_sub a NaN = NaN"
  by (simp add: fl_sub_def fl_add_NaN_right)

lemma fl_square_cases: "fl_mul a a = NaN \<or> fl_mul a a = PInf \<or> (\<exists>r. a = Fin r \<and> fl_mul a a = Fin (r * r))"
  by (cases a) simp_all

lemma fl_square_nonfinite: "\<not> isfinite a \<Longrightarrow> fl_mul a a = NaN \<or> fl_mul a a = PInf"
  by (cases a) simp_all

text \<open>The norm of a vector with a non-finite component is NaN or \<open>+\<infinity>\<close>.\<close>

lemma fvector_norm_nonfinite:
  assumes "\<not> allfinite x"
  shows "fvector_norm x = NaN \<or> fvector_norm x = PInf"
proof (cases x)
  case (fields a b c)
  have sq: "\<And>u. fl_mul u u = NaN \<or> fl_mul u u = PInf \<or> (\<exists>r. fl_mul u u = Fin r)"
    using fl_square_cases by blast
  have bad: "(fl_mul a a = NaN \<or> fl_mul a a = PInf) \<or> (fl_mul b b = NaN \<or> fl_mul b b = PInf)
      \<or> (fl_mul c c = NaN \<or> fl_mul c c = PInf)"
    using assms fields fl_square_nonfinite by auto
  have "fl_add (fl_add (fl_mul a a) (fl_mul b b)) (fl_mul c c) = NaN
      \<or> fl_add (fl_add (fl_mul a a) (fl_mul b b)) (fl_mul c c) = PInf"
    using sq [of a] sq [of b] sq [of c] bad
    by (cases "fl_mul a a"; cases "fl_mul b b"; cases "fl_mul c c") simp_all
  then show ?thesis
    using fields by auto
qed

lemma fl_div_nonfinite: "\<not> isfinite a \<Longrightarrow> n = NaN \<or> n = PInf \<Longrightarrow> fl_div a n = NaN"
  by (cases a) auto

text \<open>
  A component of \<open>x\<close> that is not finite makes the same component of both points NaN,
  whatever the tidal radius is.
\<close>

lemma component_becomes_NaN:
  assumes "\<not> isfinite a" and "n = NaN \<or> n = PInf"
  shows "fl_sub a (fl_mul (fl_div a n) k) = NaN" and "fl_add a (fl_mul (fl_div a n) k) = NaN"
  using fl_div_nonfinite [OF assms]
  by (simp_all add: fl_mul_NaN_left fl_sub_NaN_right fl_add_NaN_right)

text \<open>
  Claim C7, as amended. For every tidal-radius function (whatever it returns, finite or
  not), every host potential, velocity, mass and time, and every progenitor position with
  a non-finite component, both returned points \<open>l1\<close> and \<open>l2\<close> have a non-finite
  component: nothing is clamped or replaced by a finite value, and the function returns
  (it has no error result).
\<close>

theorem nonfinite_position_propagates:
  assumes "\<not> allfinite x"
  shows "\<not> allfinite (l1_fl (lagrange_points_fl tr pot x v mass t))
       \<and> \<not> allfinite (l2_fl (lagrange_points_fl tr pot x v mass t))"
proof (cases x)
  case (fields a b c)
  let ?n = "fvector_norm x"
  let ?k = "tr pot x v mass t"
  have n: "?n = NaN \<or> ?n = PInf"
    using assms by (rule fvector_norm_nonfinite)
  have pts: "l1_fl (lagrange_points_fl tr pot x v mass t)
        = (fl_sub a (fl_mul (fl_div a ?n) ?k), fl_sub b (fl_mul (fl_div b ?n) ?k),
           fl_sub c (fl_mul (fl_div c ?n) ?k))"
      "l2_fl (lagrange_points_fl tr pot x v mass t)
        = (fl_add a (fl_mul (fl_div a ?n) ?k), fl_add b (fl_mul (fl_div b ?n) ?k),
           fl_add c (fl_mul (fl_div c ?n) ?k))"
    using fields by (simp_all add: lagrange_points_fl_def fnormalize_vector_def Let_def)
  from assms fields consider "\<not> isfinite a" | "\<not> isfinite b" | "\<not> isfinite c"
    by auto
  then show ?thesis
  proof cases
    case 1
    then show ?thesis
      using component_becomes_NaN [OF 1 n, of ?k] by (simp add: pts)
  next
    case 2
    then show ?thesis
      using component_becomes_NaN [OF 2 n, of ?k] by (simp add: pts)
  next
    case 3
    then show ?thesis
      using component_becomes_NaN [OF 3 n, of ?k] by (simp add: pts)
  qed
qed

theorem nonfinite_position_propagates_witness:
  "\<not> allfinite (PInf, Fin 0, Fin 0)
   \<and> \<not> allfinite (l1_fl (lagrange_points_fl tidal_radius_king1962_fl
          \<lparr>host_G_fl = Fin 1, d2potential_dr2_fl = \<lambda>x t. Fin (- 1)\<rparr>
          (PInf, Fin 0, Fin 0) (Fin 0, Fin 1, Fin 0) (Fin 1) (Fin 0)))
   \<and> \<not> allfinite (l2_fl (lagrange_points_fl tidal_radius_king1962_fl
          \<lparr>host_G_fl = Fin 1, d2potential_dr2_fl = \<lambda>x t. Fin (- 1)\<rparr>
          (PInf, Fin 0, Fin 0) (Fin 0, Fin 1, Fin 0) (Fin 1) (Fin 0)))"
proof -
  have h: "\<not> allfinite (PInf, Fin 0, Fin 0)" by simp
  show ?thesis
    using h nonfinite_position_propagates [OF h, of tidal_radius_king1962_fl
        "\<lparr>host_G_fl = Fin 1, d2potential_dr2_fl = \<lambda>x t. Fin (- 1)\<rparr>"
        "(Fin 0, Fin 1, Fin 0)" "Fin 1" "Fin 0"]
    by blast
qed

text \<open>
  A non-finite velocity reaches the two points only through the tidal radius, and it need
  not arrive there. Under the King (1962) relation, the progenitor at \<open>(1, 1, 1)\<close> with
  the velocity \<open>(\<infinity>, 1, 1)\<close> has an infinite angular velocity, so the tidal radius is
  \<open>cbrt (G m / \<infinity>) = 0\<close> and both points are the progenitor position itself, all of
  whose components are finite.
\<close>

theorem nonfinite_velocity_counterexample:
  "\<not> allfinite (PInf, Fin 1, Fin 1)
   \<and> tidal_radius_king1962_fl \<lparr>host_G_fl = Fin 1, d2potential_dr2_fl = \<lambda>x t. Fin (- 1)\<rparr>
        (Fin 1, Fin 1, Fin 1) (PInf, Fin 1, Fin 1) (Fin 1) (Fin 0) = Fin 0
   \<and> lagrange_points_fl tidal_radius_king1962_fl
        \<lparr>host_G_fl = Fin 1, d2potential_dr2_fl = \<lambda>x t. Fin (- 1)\<rparr>
        (Fin 1, Fin 1, Fin 1) (PInf, Fin 1, Fin 1) (Fin 1) (Fin 0)
      = \<lparr>l1_fl = (Fin 1, Fin 1, Fin 1), l2_fl = (Fin 1, Fin 1, Fin 1)\<rparr>
   \<and> allfinite (l1_fl (lagrange_points_fl tidal_radius_king1962_fl
        \<lparr>host_G_fl = Fin 1, d2potential_dr2_fl = \<lambda>x t. Fin (- 1)\<rparr>
        (Fin 1, Fin 1, Fin 1) (PInf, Fin 1, Fin 1) (Fin 1) (Fin 0)))
   \<and> allfinite (l2_fl (lagrange_points_fl tidal_radius_king1962_fl
        \<lparr>host_G_fl = Fin 1, d2potential_dr2_fl = \<lambda>x t. Fin (- 1)\<rparr>
        (Fin 1, Fin 1, Fin 1) (PInf, Fin 1, Fin 1) (Fin 1) (Fin 0)))"
proof -
  have rt: "tidal_radius_king1962_fl \<lparr>host_G_fl = Fin 1, d2potential_dr2_fl = \<lambda>x t. Fin (- 1)\<rparr>
        (Fin 1, Fin 1, Fin 1) (PInf, Fin 1, Fin 1) (Fin 1) (Fin 0) = Fin 0"
    by (simp add: tidal_radius_king1962_fl_def orbital_angular_velocity_fl_def fl_sub_def
        inf_times_def)
  show ?thesis
    by (simp add: rt lagrange_points_fl_def fnormalize_vector_def fl_sub_def)
qed

end
